theory Spec2Isabelle
  imports Main
begin

section \<open>Python 2 byte strings and built-ins used by the plug-in\<close>

text \<open>
  The plug-in is Python 2 code; its strings are byte strings, modelled as \<^typ>\<open>string\<close>.
  The functions of this section model the built-in string and list operations that
  \<^verbatim>\<open>jpyang.py\<close> calls. Character classification is the one of the C locale (ASCII letters
  only), which is what \<^verbatim>\<open>str.capitalize\<close> uses in a Python 2 process that never calls
  \<^verbatim>\<open>setlocale\<close>.
\<close>

definition LF :: char where
  \<open>LF = CHR 0x0A\<close>

definition CR :: char where
  \<open>CR = CHR 0x0D\<close>

definition toupper :: \<open>char \<Rightarrow> char\<close> where
  \<open>toupper c = (let n = (of_char c :: nat) in
     if 97 \<le> n \<and> n \<le> 122 then char_of (n - 32) else c)\<close>

definition tolower :: \<open>char \<Rightarrow> char\<close> where
  \<open>tolower c = (let n = (of_char c :: nat) in
     if 65 \<le> n \<and> n \<le> 90 then char_of (n + 32) else c)\<close>

text \<open>\<^verbatim>\<open>s.capitalize()\<close>: the first byte upper-cased, every other byte lower-cased.\<close>

fun capitalize :: \<open>string \<Rightarrow> string\<close> where
  \<open>capitalize [] = []\<close>
| \<open>capitalize (c # cs) = toupper c # map tolower cs\<close>

text \<open>\<^verbatim>\<open>s.split(sep)\<close> for a separator of one byte: never an empty result, empty
  fields kept.\<close>

fun split_chr :: \<open>char \<Rightarrow> string \<Rightarrow> string list\<close> where
  \<open>split_chr sep [] = [[]]\<close>
| \<open>split_chr sep (c # cs) =
     (if c = sep then [] # split_chr sep cs
      else (case split_chr sep cs of
              w # ws \<Rightarrow> (c # w) # ws
            | [] \<Rightarrow> [[c]]))\<close>

text \<open>\<^verbatim>\<open>s.splitlines()\<close>: lines end at LF, CR or CR LF; no empty last line.\<close>

fun splitlines_from :: \<open>string \<Rightarrow> string \<Rightarrow> string list\<close> where
  \<open>splitlines_from cur [] = (if cur = [] then [] else [rev cur])\<close>
| \<open>splitlines_from cur [c] =
     (if c = LF \<or> c = CR then [rev cur] else [rev (c # cur)])\<close>
| \<open>splitlines_from cur (c # d # cs) =
     (if c = CR \<and> d = LF then rev cur # splitlines_from [] cs
      else if c = LF \<or> c = CR then rev cur # splitlines_from [] (d # cs)
      else splitlines_from (c # cur) (d # cs))\<close>

definition splitlines :: \<open>string \<Rightarrow> string list\<close> where
  \<open>splitlines s = splitlines_from [] s\<close>

text \<open>Slices: \<^verbatim>\<open>s[:-n]\<close> and \<^verbatim>\<open>s[-1:]\<close>; \<^verbatim>\<open>s[:n]\<close> and \<^verbatim>\<open>s[n:]\<close> are
  \<^const>\<open>take\<close> and \<^const>\<open>drop\<close>.\<close>

definition but_last :: \<open>nat \<Rightarrow> 'a list \<Rightarrow> 'a list\<close> where
  \<open>but_last n s = take (length s - n) s\<close>

definition last_from :: \<open>nat \<Rightarrow> 'a list \<Rightarrow> 'a list\<close> where
  \<open>last_from n s = drop (length s - n) s\<close>

text \<open>\<^verbatim>\<open>s.replace(old, new)\<close>: every occurrence, left to right, not overlapping.\<close>

function replace_from :: \<open>string \<Rightarrow> string \<Rightarrow> string \<Rightarrow> string\<close> where
  \<open>replace_from old new s =
     (if old = [] \<or> s = [] then s
      else if take (length old) s = old
        then new @ replace_from old new (drop (length old) s)
      else hd s # replace_from old new (tl s))\<close>
  by pat_completeness auto
termination
  by (relation \<open>measure (\<lambda>(old, new, s). length s)\<close>) (auto simp: neq_Nil_conv)

definition replace :: \<open>string \<Rightarrow> string \<Rightarrow> string \<Rightarrow> string\<close> where
  \<open>replace old new s =
     (if old = [] then new @ concat (map (\<lambda>c. c # new) s)
      else replace_from old new s)\<close>

text \<open>\<^verbatim>\<open>str(n)\<close> for an integer.\<close>

definition digit_chr :: \<open>nat \<Rightarrow> char\<close> where
  \<open>digit_chr d = char_of (48 + d)\<close>

function str_nat :: \<open>nat \<Rightarrow> string\<close> where
  \<open>str_nat n = (if n < 10 then [digit_chr n] else str_nat (n div 10) @ [digit_chr (n mod 10)])\<close>
  by pat_completeness auto
termination
  by (relation \<open>measure id\<close>) auto

definition str_int :: \<open>int \<Rightarrow> string\<close> where
  \<open>str_int i = (if i < 0 then CHR ''-'' # str_nat (nat (- i)) else str_nat (nat i))\<close>

text \<open>\<^verbatim>\<open>repr\<close> of a byte string and of a list of byte strings.\<close>

definition hex_chr :: \<open>nat \<Rightarrow> char\<close> where
  \<open>hex_chr d = (if d < 10 then char_of (48 + d) else char_of (87 + d))\<close>

definition repr_chr :: \<open>char \<Rightarrow> char \<Rightarrow> string\<close> where
  \<open>repr_chr quote c = (let n = (of_char c :: nat) in
     if c = quote \<or> c = CHR 0x5C then [CHR 0x5C, c]
     else if c = CHR 0x09 then [CHR 0x5C, CHR ''t'']
     else if c = LF then [CHR 0x5C, CHR ''n'']
     else if c = CR then [CHR 0x5C, CHR ''r'']
     else if n < 32 \<or> 127 \<le> n then [CHR 0x5C, CHR ''x'', hex_chr (n div 16), hex_chr (n mod 16)]
     else [c])\<close>

definition repr_str :: \<open>string \<Rightarrow> string\<close> where
  \<open>repr_str s = (let quote = (if CHR 0x27 \<in> set s \<and> CHR 0x22 \<notin> set s then CHR 0x22 else CHR 0x27)
     in [quote] @ concat (map (repr_chr quote) s) @ [quote])\<close>

fun join :: \<open>string \<Rightarrow> string list \<Rightarrow> string\<close> where
  \<open>join sep [] = []\<close>
| \<open>join sep [x] = x\<close>
| \<open>join sep (x # y # ys) = x @ sep @ join sep (y # ys)\<close>

definition repr_list :: \<open>string list \<Rightarrow> string\<close> where
  \<open>repr_list xs = ''['' @ join '', '' (map repr_str xs) @ '']''\<close>

section \<open>The statement tree of pyang\<close>

text \<open>
  Modelled from the spec: pyang's \<^verbatim>\<open>Statement\<close> class belongs to the parser, which is
  not part of the plug-in's source. A statement has a keyword, an argument and its
  sub-statements in parse order. The read-only \<^verbatim>\<open>parent\<close> reference is not a field: a
  function that reads \<^verbatim>\<open>stmt.parent\<close> takes the parent as an argument, \<^term>\<open>None\<close> for
  a module. Keywords and arguments are byte strings (extension keywords and statements
  without an argument are outside the model).
\<close>

datatype stmt = Statement (keyword: string) (arg: string) (substmts: \<open>stmt list\<close>)

text \<open>
  Modelled from the spec: \<^verbatim>\<open>stmt.search_one(keyword)\<close>, the parser's lookup of a single
  sub-statement: the first sub-statement with exactly that keyword, \<^term>\<open>None\<close> when
  there is none.
\<close>

definition search_one :: \<open>stmt \<Rightarrow> string \<Rightarrow> stmt option\<close> where
  \<open>search_one s kw = find (\<lambda>ch. keyword ch = kw) (substmts s)\<close>

text \<open>
  Modelled from the spec: \<^verbatim>\<open>stmt.search_one(keyword, arg)\<close>, the same lookup with the
  argument given: the first sub-statement with exactly that keyword and argument.
\<close>

definition search_one_arg :: \<open>stmt \<Rightarrow> string \<Rightarrow> string \<Rightarrow> stmt option\<close> where
  \<open>search_one_arg s kw a = find (\<lambda>ch. keyword ch = kw \<and> arg ch = a) (substmts s)\<close>

text \<open>
  Modelled from the spec: \<^verbatim>\<open>stmt.search(keyword)\<close>, the parser's lookup of all
  sub-statements with that keyword, in parse order.
\<close>

definition search :: \<open>stmt \<Rightarrow> string \<Rightarrow> stmt list\<close> where
  \<open>search s kw = filter (\<lambda>ch. keyword ch = kw) (substmts s)\<close>

section \<open>Effects: console output, written files, exceptions\<close>

text \<open>
  A function of the plug-in that prints, writes a file or can raise returns the events it
  caused, in order, and either the exception that ended it or its value. The exceptions
  are the ones the plug-in can run into: an attribute read on \<^verbatim>\<open>None\<close> (with the
  attribute's name), a read of an unassigned local variable, a missing dictionary key, the
  concatenation of a string and a value of another type (with the type's name), and the
  \<^verbatim>\<open>EmitError\<close> of \<^verbatim>\<open>fatal\<close> (with its exit code).
\<close>

datatype event = Stdout string | Stderr string | FileWrite string string

datatype error =
    AttributeError string
  | UnboundLocalError string
  | KeyError string
  | TypeError string
  | EmitError int

type_synonym 'a io = \<open>event list \<times> (error + 'a)\<close>

definition ret :: \<open>'a \<Rightarrow> 'a io\<close> where
  \<open>ret x = ([], Inr x)\<close>

definition raise :: \<open>error \<Rightarrow> 'a io\<close> where
  \<open>raise e = ([], Inl e)\<close>

definition out :: \<open>event list \<Rightarrow> unit io\<close> where
  \<open>out evs = (evs, Inr ())\<close>

definition bind :: \<open>'a io \<Rightarrow> ('a \<Rightarrow> 'b io) \<Rightarrow> 'b io\<close> where
  \<open>bind m f = (case m of
       (evs, Inl e) \<Rightarrow> (evs, Inl e)
     | (evs, Inr x) \<Rightarrow> (case f x of (evs', r) \<Rightarrow> (evs @ evs', r)))\<close>

text \<open>The options of \<^verbatim>\<open>ctx.opts\<close> that the plug-in reads (a flag is true when the option was
  given), and \<^verbatim>\<open>ctx.revs\<close>, pyang's dictionary from a module name to the list of its
  revisions, each with the handle of its source.\<close>

record ctx =
  debug :: bool
  verbose :: bool
  no_schema :: bool
  directory :: string
  revs :: \<open>string \<Rightarrow> (string \<times> string) list option\<close>

section \<open>Keys and names\<close>

type_synonym keys = \<open>(string \<times> string) list\<close>

text \<open>One iteration of the loop of \<^verbatim>\<open>extract_keys\<close> per identifier of the key argument.
  \<^verbatim>\<open>only_strings\<close> starts as \<^verbatim>\<open>True\<close> and is multiplied by a comparison's result, so it
  is the integer 1 or 0 from the first iteration on.\<close>

definition unsupported_type_warning :: \<open>ctx \<Rightarrow> string \<Rightarrow> event list\<close> where
  \<open>unsupported_type_warning c t =
     (if debug c \<or> verbose c
      then [Stderr (''WARNING! No support for type "'' @ t @ ''", defaulting to string.'')]
      else [])\<close>

fun extract_keys_loop ::
  \<open>ctx \<Rightarrow> stmt \<Rightarrow> string list \<Rightarrow> int \<times> keys \<times> keys \<Rightarrow> (int \<times> keys \<times> keys) io\<close> where
  \<open>extract_keys_loop c s [] acc = ret acc\<close>
| \<open>extract_keys_loop c s (a # as) (only_strings, confm_keys, primitive_keys) =
     (case search_one_arg s ''leaf'' a of
        None \<Rightarrow> raise (AttributeError ''search_one'')
      | Some leaf \<Rightarrow>
     (case search_one leaf ''type'' of
        None \<Rightarrow> raise (AttributeError ''arg'')
      | Some key_type \<Rightarrow>
          bind (if arg key_type = ''string''
                then ret (confm_keys @ [(''com.tailf.confm.xs.String'', a)],
                          primitive_keys @ [(''String'', a)])
                else if arg key_type = ''uint32''
                then ret (confm_keys @ [(''com.tailf.confm.xs.UnsignedInt'', a)],
                          primitive_keys @ [(''long'', a)])
                else bind (out (unsupported_type_warning c (arg key_type)))
                  (\<lambda>_. ret (confm_keys @ [(''com.tailf.confm.xs.String'', a)],
                              primitive_keys @ [(''String'', a)])))
            (\<lambda>(confm_keys', primitive_keys').
               extract_keys_loop c s as
                 (only_strings * (if fst (last primitive_keys') = ''String'' then 1 else 0),
                  confm_keys', primitive_keys'))))\<close>

definition extract_keys :: \<open>ctx \<Rightarrow> stmt \<Rightarrow> (stmt \<times> int \<times> keys \<times> keys) io\<close> where
  \<open>extract_keys c s =
     (case search_one s ''key'' of
        None \<Rightarrow> raise (AttributeError ''arg'')
      | Some key \<Rightarrow>
          bind (extract_keys_loop c s (split_chr CHR '' '' (arg key)) (1, [], []))
            (\<lambda>(only_strings, confm_keys, primitive_keys).
               ret (key, only_strings, confm_keys, primitive_keys)))\<close>

definition extract_names :: \<open>string \<Rightarrow> string \<times> string\<close> where
  \<open>extract_names a = (let capitalized = capitalize a in (capitalized @ ''.java'', capitalized))\<close>

section \<open>Schema generation\<close>

definition is_module :: \<open>stmt \<Rightarrow> bool\<close> where
  \<open>is_module s = (keyword s = ''module'' \<or> keyword s = ''submodule'')\<close>

definition is_container :: \<open>stmt \<Rightarrow> bool \<Rightarrow> bool\<close> where
  \<open>is_container s strict = (keyword s = ''container'' \<or> (\<not> strict \<and> keyword s = ''list''))\<close>

definition in_schema :: \<open>stmt \<Rightarrow> bool\<close> where
  \<open>in_schema s = (is_container s False \<or> keyword s = ''module'' \<or> keyword s = ''leaf'')\<close>

definition indent :: \<open>string list \<Rightarrow> nat \<Rightarrow> string\<close> where
  \<open>indent lines level =
     but_last 1 (concat (map (\<lambda>line. replicate (level * 4) CHR '' '' @ line @ ''\<newline>'') lines))\<close>

definition java_docify :: \<open>string \<Rightarrow> string\<close> where
  \<open>java_docify s = but_last 1 (concat (map (\<lambda>row. '' * '' @ row @ ''\<newline>'') (splitlines s)))\<close>

text \<open>
  \<^verbatim>\<open>schema_node(stmt, tagpath, ns, ctx)\<close>, with \<^verbatim>\<open>stmt.parent\<close> as the argument \<open>parent\<close>.
  The result is the list of lines of the node; the lines at index 3 and 4 carry the
  occurrence bounds. A \<^verbatim>\<open>print\<close> statement is one \<^const>\<open>Stdout\<close> event holding the printed
  text without the line break that \<^verbatim>\<open>print\<close> adds.
\<close>

definition schema_node ::
  \<open>ctx \<Rightarrow> stmt option \<Rightarrow> stmt \<Rightarrow> string \<Rightarrow> string \<Rightarrow> event list \<times> string list\<close> where
  \<open>schema_node c parent s tagpath ns =
     (let mandatory = search_one s ''mandatory'';
          isMandatory = (case mandatory of None \<Rightarrow> False | Some m \<Rightarrow> arg m = ''true'');
          unique = search_one s ''unique'';
          isUnique = (case unique of None \<Rightarrow> False | Some u \<Rightarrow> arg u = ''true'');
          key = (case parent of None \<Rightarrow> None | Some p \<Rightarrow> search_one p ''key'');
          isKey = (case key of None \<Rightarrow> False | Some k \<Rightarrow> arg k = arg s);
          childOfContainerOrList =
            (case parent of None \<Rightarrow> False | Some p \<Rightarrow> is_container p False);
          (min_occurs, max_occurs) =
            (if is_module s \<or> isKey \<or> (childOfContainerOrList \<and> is_container s True)
             then (''1'', ''1'') else (''0'', ''-1''));
          min_occurs = (if isMandatory then ''1'' else min_occurs);
          max_occurs =
            (if isUnique \<or> childOfContainerOrList \<or> is_container s True
             then ''1'' else max_occurs);
          children = concat (map (\<lambda>ch. arg ch @ '' '') (substmts s))
      in ((if verbose c then [Stdout (''Generating schema node "'' @ tagpath @ ''"...'')] else []),
          [''<tagpath>'' @ tagpath @ ''</tagpath>'',
           ''<namespace>'' @ ns @ ''</namespace>'',
           ''<primitive_type></primitive_type>'',
           ''<min_occurs>'' @ min_occurs @ ''</min_occurs>'',
           ''<max_occurs>'' @ max_occurs @ ''</max_occurs>'',
           ''<children>'' @ but_last 1 children @ ''</children>'',
           ''<flags></flags>'',
           ''<desc></desc>'']))\<close>

text \<open>\<^verbatim>\<open>schema_nodes(stmts, tagpath, ns, ctx)\<close>; \<open>parent\<close> is the statement whose
  sub-statements \<open>stmts\<close> are.\<close>

fun schema_nodes ::
  \<open>ctx \<Rightarrow> stmt option \<Rightarrow> stmt list \<Rightarrow> string \<Rightarrow> string \<Rightarrow> event list \<times> string\<close> where
  \<open>schema_nodes c parent [] tagpath ns = ([], [])\<close>
| \<open>schema_nodes c parent (Statement kw a subs # ss) tagpath ns =
     (if in_schema (Statement kw a subs) then
        (case schema_node c parent (Statement kw a subs) (tagpath @ a @ ''/'') ns of
           (evs1, node) \<Rightarrow>
        (case schema_nodes c (Some (Statement kw a subs)) subs (tagpath @ a @ ''/'') ns of
           (evs2, below) \<Rightarrow>
        (case schema_nodes c parent ss tagpath ns of
           (evs3, res) \<Rightarrow>
             (evs1 @ evs2 @ evs3,
              ''<node>\<newline>'' @ indent node 1 @ (''\<newline>'' @
                ''</node>'') @ below @ res))))
      else schema_nodes c parent ss tagpath ns)\<close>

section \<open>Generators of Java method text\<close>

definition access_methods_comment :: \<open>stmt \<Rightarrow> bool \<Rightarrow> string\<close> where
  \<open>access_methods_comment s optional =
     (let opt = (if optional then ''optional '' else '''')
      in (''\<newline>'' @
        ''    /**\<newline>'' @
        ''     * -------------------------------------------------------\<newline>'' @
        ''     * Access methods for '') @ opt @ keyword s @
     '' child: "'' @ arg s @ (''".\<newline>'' @
       ''     * -------------------------------------------------------\<newline>'' @
       ''     */\<newline>''))\<close>

definition child_field :: \<open>stmt \<Rightarrow> string\<close> where
  \<open>child_field s =
     (''\<newline>'' @
       ''    /**\<newline>'' @
       ''     * Field for child '') @ keyword s @ '' "'' @ arg s @ (''".\<newline>'' @
       ''     */\<newline>'' @
       ''    public '') @ capitalize (arg s) @ '' '' @ arg s @ '' = null;\<newline>''\<close>

definition get_stmt :: \<open>stmt \<Rightarrow> keys \<Rightarrow> bool \<Rightarrow> string\<close> where
  \<open>get_stmt s ks string =
     (let name = capitalize (arg s);
          spec = (if string then (''\<newline>'' @
            ''     * The keys are specified as Strings'') else '''') @
            concat (map (\<lambda>(key_type, key_name).
              (''\<newline>'' @
                ''     * @param '') @ key_name @ '' Key argument of child.'') ks);
          arguments = concat (map (\<lambda>(key_type, key_name).
              if string then ''String '' @ key_name @ '', ''
              else key_type @ '' '' @ key_name @ '', '') ks);
          xpath = concat (map (\<lambda>(key_type, key_name).
              ''['' @ key_name @ ''=\'" + '' @ key_name @ '' + "\']'') ks)
      in (''\<newline>'' @
        ''    /**\<newline>'' @
        ''     * Get method for '') @ keyword s @ '' entry: "'' @ arg s @ (''".\<newline>'' @
        ''     * Return the child with the specified keys '') @
     ''(if any).'' @ spec @ (''\<newline>'' @
       ''     * @return The '') @ keyword s @ ('' entry with the specified keys.\<newline>'' @
       ''     */\<newline>'' @
       ''    public '') @ name @ '' get'' @ name @ ''('' @ but_last 2 arguments @ ('')\<newline>'' @
       ''        throws INMException {\<newline>'' @
       ''        String path = "'') @ arg s @ xpath @ (''";\<newline>'' @
       ''        return ('') @ name @ ('')getListContainer(path);\<newline>'' @
       ''    }\<newline>''))\<close>

definition get_value :: \<open>stmt \<Rightarrow> string \<Rightarrow> string\<close> where
  \<open>get_value s ret_type =
     (let name = capitalize (arg s)
      in (''\<newline>'' @
        ''    /**\<newline>'' @
        ''     * Return the value for child '') @ keyword s @ '' "'' @ arg s @ (''".\<newline>'' @
        ''     * @return The value of the '') @ keyword s @ (''.\<newline>'' @
        ''     */\<newline>'' @
        ''    public '') @ ret_type @ '' get'' @ name @ (''Value()\<newline>'' @
        ''        throws INMException {\<newline>'' @
        ''        return ('') @ ret_type @ '')getValue("'' @ arg s @ (''");\<newline>'' @
        ''    }\<newline>''))\<close>

text \<open>\<^verbatim>\<open>set_value(stmt, prefix, arg_type, confm_type)\<close> prints a line on every call.\<close>

definition set_value :: \<open>stmt \<Rightarrow> string \<Rightarrow> string \<Rightarrow> string \<Rightarrow> event list \<times> string\<close> where
  \<open>set_value s prefix arg_type confm_type =
     (let name = capitalize (arg s);
          MAX_COLS = 80 - int (length (''     * Sets the value for child '' @ keyword s @
            '' "'' @ arg s @ ''",.''));
          (spec1, spec2) =
            (if arg_type = ''String''
             then ('', using a string value'', ''string representation of the '')
             else if arg_type = ''long''
             then ('', using the java primitive value'', '''')
             else ('''', ''''));
          printed = Stdout (''set'' @ name @ ''Value('' @ arg_type @ '' '' @ arg s @
            (''Value): \<newline>'' @
              ''len(spec1)='') @
            str_int (int (length spec1)) @ '' MAX_COLS='' @ str_int MAX_COLS);
          spec1 = (if int (length spec1) > MAX_COLS then ('',\<newline>'' @
            ''     * '') @ drop 2 spec1 else spec1);
          body =
            (if prefix \<noteq> []
             then (if keyword s = ''leaf-list'' then ''setLeafListValue('' else ''setLeafValue('') @
               prefix @ (''.NAMESPACE,\<newline>'' @
                 ''            "'') @ arg s @ (''",\<newline>'' @
                 ''            '') @ arg s @ (''Value,\<newline>'' @
                 ''            childrenNames());'')
             else ''set'' @ name @ ''Value(new '' @ confm_type @ ''('' @ arg s @
               ''Value));'')
      in ([printed],
          (''\<newline>'' @
            ''    /**\<newline>'' @
            ''     * Sets the value for child '') @ keyword s @ '' "'' @ arg s @ ''"'' @
        spec1 @ (''.\<newline>'' @
          ''     * @param '') @ arg s @ ''Value The '' @ spec2 @ (''value to set.\<newline>'' @
          ''     */\<newline>'' @
          ''    public void set'') @ name @ ''Value('' @ arg_type @ '' '' @ arg s @
        (''Value)\<newline>'' @
          ''        throws INMException {\<newline>'' @
          ''        '') @ body @ (''\<newline>'' @
          ''    }\<newline>'')))\<close>

definition unset_value :: \<open>stmt \<Rightarrow> string\<close> where
  \<open>unset_value s =
     (''\<newline>'' @
       ''    /**\<newline>'' @
       ''     * Unsets the value for child '') @ keyword s @ '' "'' @ arg s @ (''".\<newline>'' @
       ''     */\<newline>'' @
       ''    public void unset'') @ capitalize (arg s) @ (''Value()\<newline>'' @
       ''        throws INMException {\<newline>'' @
       ''        delete("'') @ arg s @ (''");\<newline>'' @
       ''    }\<newline>'')\<close>

definition add_value :: \<open>stmt \<Rightarrow> string \<Rightarrow> string\<close> where
  \<open>add_value s prefix =
     (let (name, value_type) =
            (if keyword s = ''leaf-list'' then (''Empty'', ''List'') else ('''', ''''));
          name = name @ capitalize (arg s)
      in (''\<newline>'' @
        ''    /**\<newline>'' @
        ''     * This method is used for creating a subtree filter.\<newline>'' @
        ''     * The added "'') @ arg s @ ''" '' @ keyword s @
        ('' will not have a value.\<newline>'' @
          ''     */\<newline>'' @
          ''    public void add'') @ name @ (''()\<newline>'' @
          ''        throws INMException {\<newline>'' @
          ''        setLeaf'') @ value_type @ ''Value('' @ prefix @ (''.NAMESPACE,\<newline>'' @
          ''            "'') @ arg s @ (''",\<newline>'' @
          ''            null,\<newline>'' @
          ''            childrenNames());\<newline>'' @
          ''    }\<newline>''))\<close>

definition mark :: \<open>stmt \<Rightarrow> string \<Rightarrow> string \<Rightarrow> string\<close> where
  \<open>mark s op arg_type =
     (let (spec, argument, path) =
            (if keyword s = ''leaf-list''
             then (op @ ''"'' @ (''.\<newline>'' @
               ''     * @param '') @ arg s @ ''Value The value to mark'' @
                     (if arg_type = ''String'' then '', given as a String'' else ''''),
                   arg_type @ '' '' @ arg s @ ''Value'',
                   arg s @ ''[name=\'" + '' @ arg s @ ''Value+"\']'')
             else (op @ ''"'', '''', arg s))
      in (''\<newline>'' @
        ''    /**\<newline>'' @
        ''     * Marks the "'') @ arg s @ ''" '' @ keyword s @
        '' with operation "'' @ spec @ (''.\<newline>'' @
          ''     */\<newline>'' @
          ''    public void mark'') @ capitalize (arg s) @ capitalize op @ ''('' @
        argument @ ('')\<newline>'' @
          ''        throws INMException {\<newline>'' @
          ''        markLeaf'') @ capitalize op @ ''("'' @ path @ (''");\<newline>'' @
          ''    }\<newline>''))\<close>

definition child_iterator :: \<open>stmt \<Rightarrow> string\<close> where
  \<open>child_iterator substmt =
     (let iterator_type =
            (if keyword substmt = ''leaf-list'' then ''LeafListValue'' else ''Children'')
      in (''\<newline>'' @
        ''    /**\<newline>'' @
        ''     * Iterator method for the '') @ keyword substmt @ '' "'' @ arg substmt @
        (''".\<newline>'' @
          ''     * @return An iterator for the '') @ keyword substmt @ (''.\<newline>'' @
          ''     */\<newline>'' @
          ''    public Element'') @ iterator_type @ ''Iterator '' @ arg substmt @
        (''Iterator() {\<newline>'' @
          ''        return new Element'') @ iterator_type @ ''Iterator(children, "'' @
        arg substmt @ (''");\<newline>'' @
          ''    }\<newline>''))\<close>

definition add_stmt :: \<open>stmt \<Rightarrow> keys \<Rightarrow> bool \<Rightarrow> bool \<Rightarrow> string\<close> where
  \<open>add_stmt s args field string =
     (let name = capitalize (arg s);
          (spec1, spec2, spec3) =
            (if length args = 1 \<and> fst (hd args) = arg s
             then ((''.\<newline>'' @
               ''     * @param '') @ snd (hd args) @ '' Child to be added to children'',
                   name @ '' '' @ arg s @ '', '',
                   '''')
             else
               (let spec3 = ''\<newline>'' @ replicate 8 CHR '' '' @ name @ '' '' @ arg s @
                      '' = new '' @ name @ ''(''
                in if args = []
                   then ((''.\<newline>'' @
                     ''     * This method is used for creating subtree filters''),
                         '''',
                         spec3 @ '');'')
                   else
                     ('', with given key arguments'' @
                        (if string then (''.\<newline>'' @
                          ''     * The keys are specified as strings'') else '''') @
                        concat (map (\<lambda>(arg_type, arg_name).
                          (''.\<newline>'' @
                            ''     * @param '') @ arg_name @ '' Key argument of child'') args),
                      concat (map (\<lambda>(arg_type, arg_name).
                          if string then ''String '' @ arg_name @ '', ''
                          else arg_type @ '' '' @ arg_name @ '', '') args),
                      but_last 2 (spec3 @ concat (map (\<lambda>(arg_type, arg_name).
                          arg_name @ '', '') args)) @ '');'')));
          spec3 = (if field
                   then spec3 @ ''\<newline>'' @ replicate 8 CHR '' '' @ ''this.'' @ arg s @ '' = '' @
                     arg s @ '';''
                   else spec3)
      in (''\<newline>'' @
        ''    /**\<newline>'' @
        ''     * Adds '') @ keyword s @ '' entry "'' @ arg s @ ''"'' @ spec1 @ (''.\<newline>'' @
        ''     * @return The added child.\<newline>'' @
        ''     */\<newline>'' @
        ''    public '') @ name @ '' add'' @ name @ ''('' @ but_last 2 spec2 @ ('')\<newline>'' @
        ''        throws INMException {'') @ spec3 @ (''\<newline>'' @
        ''        insertChild('') @ arg s @ ('', childrenNames());\<newline>'' @
        ''        return '') @ arg s @ ('';\<newline>'' @
        ''    }\<newline>''))\<close>

definition delete_stmt :: \<open>stmt \<Rightarrow> keys \<Rightarrow> bool \<Rightarrow> bool \<Rightarrow> string\<close> where
  \<open>delete_stmt s args string keys =
     (let (spec1, spec2, spec3, arguments) =
            (if args \<noteq> []
             then ((if keys
                    then ''", with specified keys.'' @
                      (if string then (''\<newline>'' @
                        ''     * The keys are specified as Strings'') else '''')
                    else if string then (''\<newline>'' @
                      ''     * The value is specified as a String'')
                    else '''') @
                   concat (map (\<lambda>(arg_type, arg_name).
                     if keys then (''\<newline>'' @
                       ''     * @param '') @ arg_name @ '' Key argument of child.''
                     else (''\<newline>'' @
                       ''     * @param '') @ arg_name @ '' Child to be removed.'') args),
                   '''',
                   concat (map (\<lambda>(arg_type, arg_name).
                     if keys then ''['' @ arg_name @ ''=\'" + '' @ arg_name @ '' + "\']''
                     else ''[name=\'" + '' @ arg_name @ '' + "\']'') args),
                   concat (map (\<lambda>(arg_type, arg_name).
                     if string then ''String '' @ arg_name @ '', ''
                     else arg_type @ '' '' @ arg_name @ '', '') args))
             else ('''', ''this.'' @ arg s @ ('' = null;\<newline>'' @
               ''        ''), '''', ''''))
      in (''\<newline>'' @
        ''    /**\<newline>'' @
        ''     * Deletes '') @ keyword s @ '' entry "'' @ arg s @ spec1 @ (''"\<newline>'' @
        ''     */\<newline>'' @
        ''    public void delete'') @ capitalize (arg s) @ ''('' @ but_last 2 arguments @ ('')\<newline>'' @
        ''        throws INMException {\<newline>'' @
        ''        '') @ spec2 @ ''String path = "'' @ arg s @ spec3 @ (''";\<newline>'' @
        ''        delete(path);\<newline>'' @
        ''    }\<newline>''))\<close>

text \<open>The loop of \<^verbatim>\<open>support_add\<close> runs over the fields from the last to the first and
  separates them by an \<^verbatim>\<open>else\<close>.\<close>

fun support_add_assignments :: \<open>string list \<Rightarrow> string\<close> where
  \<open>support_add_assignments [] = ''''\<close>
| \<open>support_add_assignments (f # fs) =
     ''if ($child instanceof '' @ capitalize f @
       '') '' @ f @ '' = ('' @ capitalize f @ '')$child;'' @
     (if fs \<noteq> [] then (''\<newline>'' @
       ''        else '') else '''') @
     support_add_assignments fs\<close>

definition support_add :: \<open>string list \<Rightarrow> string\<close> where
  \<open>support_add flds =
     (''\<newline>'' @
       ''    /**\<newline>'' @
       ''     * -------------------------------------------------------\<newline>'' @
       ''     * Support method for addChild.\<newline>'' @
       ''     * -------------------------------------------------------\<newline>'' @
       ''     */\<newline>'' @
       ''\<newline>'' @
       ''    /**\<newline>'' @
       ''     * Adds a child to this object.\<newline>'' @
       ''     */\<newline>'' @
       ''    public void addChild(Element $child) {\<newline>'' @
       ''        super.addChild($child);\<newline>'' @
       ''        '') @ support_add_assignments (rev flds) @ (''\<newline>'' @
       ''    }\<newline>'')\<close>

definition key_names :: \<open>stmt \<Rightarrow> string\<close> where
  \<open>key_names s =
     (let keys = search s ''key'';
          res = (if keys = [] then ''return null''
                 else but_last 2 (''return new String[] {\<newline>'' @
                        concat (map (\<lambda>key_str.
                          concat (map (\<lambda>key. replicate 12 CHR '' '' @ ''"'' @ key @ ''",\<newline>'')
                            (split_chr CHR '' '' (arg key_str)))) keys)) @
                      ''\<newline>'' @ replicate 8 CHR '' '' @ ''}'')
      in (''\<newline>'' @
        ''    /**\<newline>'' @
        ''     * Structure information which specifies\<newline>'' @
        ''     * the keys for the list entries.\<newline>'' @
        ''     */\<newline>'' @
        ''    public String[] keyNames() {\<newline>'' @
        ''        '') @ res @ ('';\<newline>'' @
        ''    }\<newline>''))\<close>

definition children_names :: \<open>stmt \<Rightarrow> string\<close> where
  \<open>children_names s =
     (let children = filter (\<lambda>x. keyword x \<noteq> ''key'') (substmts s);
          names = map arg children;
          names = (if length names > 0
                   then replace '', '' ('',\<newline>'' @ replicate 12 CHR '' '')
                          (replace [CHR 0x27] ''"'' (but_last 1 (drop 1 (repr_list names))))
                   else '''')
      in (''\<newline>'' @
        ''    /**\<newline>'' @
        ''     * Structure information with the names of the children.\<newline>'' @
        ''     * Makes it possible to order the children.\<newline>'' @
        ''     */\<newline>'' @
        ''    public String[] childrenNames() {\<newline>'' @
        ''        return new String[] {\<newline>'' @
        ''            '') @ names @ (''\<newline>'' @
        ''        };\<newline>'' @
        ''    }\<newline>''))\<close>

definition class_fields :: \<open>string \<Rightarrow> string \<Rightarrow> string\<close> where
  \<open>class_fields ns_arg prefix_arg =
     (''\<newline>'' @
       ''    public static final String NAMESPACE = "'') @ ns_arg @ (''";\<newline>'' @
       ''\<newline>'' @
       ''    public static final String PREFIX = "'') @ prefix_arg @ (''";\<newline>'' @
       ''    '')\<close>

definition enable :: \<open>string \<Rightarrow> string\<close> where
  \<open>enable prefix_name =
     (''\<newline>'' @
       ''    /**\<newline>'' @
       ''     * Enable the elements in this namespace to be aware\<newline>'' @
       ''     * of the data model and use the generated classes.\<newline>'' @
       ''     */\<newline>'' @
       ''    public static void enable() throws INMException {\<newline>'' @
       ''        Container.setPackage(NAMESPACE, PREFIX);\<newline>'' @
       ''        '') @ prefix_name @ (''.registerSchema();\<newline>'' @
       ''    }\<newline>'')\<close>

definition register_schema :: \<open>string \<Rightarrow> string\<close> where
  \<open>register_schema prefix_name =
     (''\<newline>'' @
       ''    /**\<newline>'' @
       ''     * Register the schema for this namespace in the global\<newline>'' @
       ''     * schema table (CsTree) making it possible to lookup\<newline>'' @
       ''     * CsNode entries for all tagpaths\<newline>'' @
       ''     */\<newline>'' @
       ''    public static void registerSchema() throws INMException {\<newline>'' @
       ''        StackTraceElement[] sTrace = (new Exception()).getStackTrace();\<newline>'' @
       ''        ClassLoader loader = sTrace[0].getClass().getClassLoader();\<newline>'' @
       ''        java.net.URL schemaUrl = loader.getSystemResource("'') @
            prefix_name @ (''.schema");\<newline>'' @
              ''        SchemaParser parser = new SchemaParser();\<newline>'' @
              ''        Hashtable h = CsTree.create(NAMESPACE);\<newline>'' @
              ''        if (schemaUrl == null)\<newline>'' @
              ''            parser.readFile("'') @ prefix_name @ (''.schema", h);\<newline>'' @
              ''        else\<newline>'' @
              ''            parser.readFile(schemaUrl, h);\<newline>'' @
              ''    }\<newline>'')\<close>

section \<open>Constructors, clone methods and the class text\<close>

text \<open>The values that a constructor in mode 2 or 3 sets its key leaves to, with the
  warning for an argument type that is neither \<^verbatim>\<open>String\<close> nor \<^verbatim>\<open>long\<close>. The warning
  names the source line of the \<^verbatim>\<open>f_lineno\<close> read.\<close>

fun constructor_values :: \<open>ctx \<Rightarrow> keys \<Rightarrow> event list \<times> string list\<close> where
  \<open>constructor_values c [] = ([], [])\<close>
| \<open>constructor_values c ((arg_type, arg_name) # args) =
     (case (if arg_type = ''String'' then ([], ''new com.tailf.confm.xs.String('')
            else if arg_type = ''long'' then ([], ''new com.tailf.confm.xs.UnsignedInt('')
            else ((if debug c \<or> verbose c
                   then [Stderr (''WARNING, at line '' @ str_int 700 @
                           '' constructor argument'' @
                           '' defaulting to string from: '' @ arg_type)]
                   else []),
                  ''new com.tailf.confm.xs.String('')) of
        (evs, decl) \<Rightarrow>
          (case constructor_values c args of
             (evs', values) \<Rightarrow> (evs @ evs', (decl @ arg_name @ ''Value)'') # values)))\<close>

text \<open>The loop over \<^verbatim>\<open>zip(args, values)\<close>; its state is
  \<^verbatim>\<open>(inserts, docstring, arguments, MAX_COLS)\<close>.\<close>

fun constructor_loop ::
  \<open>string \<Rightarrow> nat \<Rightarrow> ((string \<times> string) \<times> string) list \<Rightarrow>
   string \<times> string \<times> string \<times> int \<Rightarrow> string \<times> string \<times> string \<times> int\<close> where
  \<open>constructor_loop root mode [] st = st\<close>
| \<open>constructor_loop root mode (((arg_type, arg_name), v) # rest)
       (inserts, docstring, arguments, MAX_COLS) =
     (let inserts = inserts @ (''\<newline>'' @
       ''        // Set key element: '') @ arg_name @ (''\<newline>'' @
       ''        Leaf '') @ arg_name @ '' = new Leaf('' @ root @ ''.NAMESPACE, "'' @
            arg_name @ (''");\<newline>'' @
              ''        '') @ arg_name @ ''.setValue('' @ v @ ('');\<newline>'' @
              ''        insertChild('') @ arg_name @ '', childrenNames());'';
          arg_name = arg_name @ ''Value'';
          docstring = docstring @ (''\<newline>'' @
            ''     * @param '') @ arg_name @
            '' Key argument of child.'';
          tmp = (if mode = 2 then ''String '' @ arg_name @ '', ''
                 else arg_type @ '' '' @ arg_name @ '', '');
          (tmp, MAX_COLS) =
            (if int (length tmp) > MAX_COLS
             then (let tmp = ''\<newline>'' @ replicate 8 CHR '' '' @ tmp in (tmp, 80 - int (length tmp)))
             else (tmp, MAX_COLS - int (length tmp)))
      in constructor_loop root mode rest (inserts, docstring, arguments @ tmp, MAX_COLS))\<close>

definition constructor ::
  \<open>stmt \<Rightarrow> ctx \<Rightarrow> string \<Rightarrow> bool \<Rightarrow> nat \<Rightarrow> keys \<Rightarrow> string \<Rightarrow> event list \<times> string\<close> where
  \<open>constructor s c root set_prefix mode args throws =
     (let name = capitalize (arg s);
          MAX_COLS = 80 - int (length (''    public '' @ name @ ''(''));
          root = (if root = '''' then name else root);
          setters = (if set_prefix then (''\<newline>'' @
            ''        setDefaultPrefix();\<newline>'' @
            ''        setPrefix('') @ root @ ''.PREFIX);'' else '''');
          (evs, obj_status, docstring, inserts, arguments) =
            (if args = [] \<or> mode = 0 then ([], ''empty '', '''', '''', '''')
             else
               (case (if mode = 1
                      then ([], '''', map (\<lambda>(arg_type, arg_name). arg_name @ ''Value'') args)
                      else (case constructor_values c args of
                              (evs, values) \<Rightarrow>
                                (evs,
                                 (if mode = 2 then (''\<newline>'' @
                                   ''     * with Strings for the keys.'')
                                  else (''\<newline>'' @
                                    ''     * with primitive Java types.'')),
                                 values))) of
                  (evs, docstring, values) \<Rightarrow>
                    (case constructor_loop root mode (zip args values)
                            ('''', docstring, '''', MAX_COLS) of
                       (inserts, docstring, arguments, MAX_COLS) \<Rightarrow>
                         (evs, ''initialized '', docstring, inserts, but_last 2 arguments))))
      in (evs,
          (''\<newline>'' @
            ''    /**\<newline>'' @
            ''     * Constructor for an '') @ obj_status @ name @ '' object.'' @ docstring @
     (''\<newline>'' @
       ''     */\<newline>'' @
       ''    public '') @ name @ ''('' @ arguments @ '')'' @ throws @ ('' {\<newline>'' @
       ''        super('') @ root @ ''.NAMESPACE, "'' @ arg s @ ''");'' @
        inserts @ setters @ (''\<newline>'' @
          ''    }\<newline>'')))\<close>

text \<open>The loop of \<^verbatim>\<open>clone\<close> over the key names; its state is
  \<^verbatim>\<open>(catch_stmt, MAX_COLS)\<close>.\<close>

fun clone_loop :: \<open>string list \<Rightarrow> string \<times> int \<Rightarrow> string \<times> int\<close> where
  \<open>clone_loop [] st = st\<close>
| \<open>clone_loop (key_name # rest) (catch_stmt, MAX_COLS) =
     (let tmp = ''get'' @ key_name @ ''Value(), '';
          (tmp, MAX_COLS) =
            (if int (length tmp) > MAX_COLS
             then (let tmp = ''\<newline>'' @ replicate 16 CHR '' '' @ tmp in (tmp, 80 - int (length tmp)))
             else (tmp, MAX_COLS - int (length tmp)))
      in clone_loop rest (catch_stmt @ tmp, MAX_COLS))\<close>

definition clone :: \<open>string \<Rightarrow> string list \<Rightarrow> bool \<Rightarrow> string\<close> where
  \<open>clone class_name names shallow =
     (let (try_stmt, catch_stmt) =
            (if names \<noteq> []
             then (''try {\<newline>'' @ replicate 12 CHR '' '',
                   but_last 2 (fst (clone_loop names
                     (''('', 80 - 44 - int (length class_name)))) @ (''));\<newline>'' @
                       ''        } catch (INMException e) { return null; }\<newline>'' @
                       ''    }\<newline>''))
             else ('''', (''());\<newline>'' @
               ''    }\<newline>'')));
          (copy, signature, cast, method, children) =
            (if \<not> shallow
             then (''n exact'', ''Object clone()'', ''('' @ class_name @ '')'',
                   ''cloneContent'', '''')
             else ('' shallow'', ''Element cloneShallow()'', '''',
                   ''cloneShallowContent'', '' Children are not included.''))
      in (''\<newline>'' @
        ''    /**\<newline>'' @
        ''     * Clones this object, returning a'') @ copy @ ('' copy.\<newline>'' @
        ''     * @return A clone of the object.'') @ children @ (''\<newline>'' @
        ''     */\<newline>'' @
        ''    public '') @ signature @ ('' {\<newline>'' @
        ''        '') @ try_stmt @ ''return '' @ cast @ method @ ''(new '' @ class_name @
            catch_stmt)\<close>

text \<open>\<^verbatim>\<open>java_class\<close> reads the date of the day it runs on; the date is an argument here.\<close>

record date =
  year :: nat
  month :: nat
  day :: nat

definition java_class ::
  \<open>date \<Rightarrow> string \<Rightarrow> string \<Rightarrow> string list \<Rightarrow> string \<Rightarrow> string \<Rightarrow> string \<Rightarrow> string \<Rightarrow>
   string \<Rightarrow> string\<close> where
  \<open>java_class time filename package imports description body version modifiers source =
     (let date = str_int (int (day time)) @ ''/'' @ str_int (int (month time)) @ ''/'' @
            str_int (int (year time) mod 100);
          header_comment = (''/* \<newline>'' @
            '' * @(#)'') @ filename @ replicate 8 CHR '' '' @ version @ '' '' @
            date @ (''\<newline>'' @
              '' *\<newline>'' @
              '' * This file has been auto-generated by JPyang, the Java output format plug-in\<newline>'' @
              '' * of pyang. Origin: '') @ source @ (''\<newline>'' @
              '' */'');
          date = str_int (int (year time)) @ ''-'' @ str_int (int (month time)) @ ''-'' @
            str_int (int (day time));
          class_doc = (''/**\<newline>'' @
            '' * '') @ description @ (''\<newline>'' @
            '' *\<newline>'' @
            '' * @version    '') @ version @ '' '' @ date @ (''\<newline>'' @
            '' * @author    Auto Generated\<newline>'' @
            '' */'');
          header = header_comment @ (''\<newline>'' @
            ''\<newline>'' @
            ''package '') @ package @ '';\<newline>'' @
            (if length imports > 0 then ''\<newline>'' else '''') @
            concat (map (\<lambda>im. ''import '' @ im @ '';\<newline>'') imports) @
            ''\<newline>'' @ class_doc @ ''\<newline>'';
          class_decl = ''public class '' @ hd (split_chr CHR ''.'' filename) @ modifiers @ '' {\<newline>''
      in header @ class_decl @ body @ (''\<newline>'' @
        ''}''))\<close>

section \<open>The class of a container or list statement\<close>

definition lift :: \<open>event list \<times> 'a \<Rightarrow> 'a io\<close> where
  \<open>lift p = (fst p, Inr (snd p))\<close>

text \<open>
  The local variable \<^verbatim>\<open>type_str\<close> of \<^verbatim>\<open>generate_class\<close> is assigned in the branches for
  leaf and leaf-list statements and keeps its value from one iteration of the loop over the
  sub-statements to the next. It is \<^term>\<open>None\<close> until its first assignment; reading it then
  raises \<^verbatim>\<open>UnboundLocalError\<close>. In the branch for a type that is neither \<^verbatim>\<open>uint32\<close> nor
  \<^verbatim>\<open>string\<close> the assignment stands inside the \<^verbatim>\<open>if ctx.opts.debug or ctx.opts.verbose\<close>
  block, next to the warning.
\<close>

definition read_type_str :: \<open>string option \<Rightarrow> string io\<close> where
  \<open>read_type_str type_str =
     (case type_str of None \<Rightarrow> raise (UnboundLocalError ''type_str'') | Some t \<Rightarrow> ret t)\<close>

text \<open>The branch \<^verbatim>\<open>sub.keyword == 'leaf'\<close>: the text added to \<^verbatim>\<open>access_methods\<close> and
  the new value of \<^verbatim>\<open>type_str\<close>.\<close>

definition leaf_methods ::
  \<open>ctx \<Rightarrow> stmt \<Rightarrow> stmt \<Rightarrow> string \<Rightarrow> string option \<Rightarrow> (string \<times> string option) io\<close> where
  \<open>leaf_methods c s sub prefix_name type_str =
     (let key = search_one s ''key'';
          optional = \<not> (case key of None \<Rightarrow> False
                         | Some k \<Rightarrow> arg sub \<in> set (split_chr CHR '' '' (arg k)));
          comment = (if optional then access_methods_comment sub optional
                     else access_methods_comment (Statement ''key'' (arg sub) []) optional)
      in case search_one sub ''type'' of
           None \<Rightarrow> raise (AttributeError ''arg'')
         | Some type_stmt \<Rightarrow>
             bind
               (if arg type_stmt = ''uint32'' then
                  (let type_str = ''com.tailf.confm.xs.UnsignedInt'' in
                   bind (lift (set_value sub prefix_name type_str '''')) (\<lambda>m1.
                   bind (lift (set_value sub '''' ''String'' type_str)) (\<lambda>m2.
                   bind (lift (set_value sub '''' ''long'' type_str)) (\<lambda>m3.
                   ret (get_value sub type_str @ m1 @ m2 @ m3, Some type_str)))))
                else if arg type_stmt = ''string'' then
                  (let type_str = ''com.tailf.confm.xs.String'' in
                   bind (lift (set_value sub prefix_name type_str '''')) (\<lambda>m1.
                   bind (lift (set_value sub '''' ''String'' type_str)) (\<lambda>m2.
                   ret (get_value sub type_str @ m1 @ m2, Some type_str))))
                else
                  bind (out (unsupported_type_warning c (arg type_stmt))) (\<lambda>_.
                  (let type_str = (if debug c \<or> verbose c
                                   then Some ''com.tailf.confm.xs.String'' else type_str) in
                   bind (read_type_str type_str) (\<lambda>t.
                   bind (lift (set_value sub prefix_name t '''')) (\<lambda>m1.
                   bind (lift (set_value sub '''' '''' '''')) (\<lambda>m2.
                   ret (get_value sub t @ m1 @ m2, type_str)))))))
               (\<lambda>(methods, type_str).
                  ret (comment @ methods @
                       (if optional then unset_value sub else '''') @
                       add_value sub prefix_name @
                       (if optional
                        then mark sub ''replace'' ''String'' @ mark sub ''merge'' ''String'' @
                          mark sub ''create'' ''String'' @ mark sub ''delete'' ''String''
                        else ''''),
                       type_str)))\<close>

text \<open>The branch \<^verbatim>\<open>sub.keyword == 'leaf-list'\<close>.\<close>

definition leaf_list_methods ::
  \<open>ctx \<Rightarrow> stmt \<Rightarrow> string \<Rightarrow> string option \<Rightarrow> (string \<times> string option) io\<close> where
  \<open>leaf_list_methods c sub prefix_name type_str =
     (case search_one sub ''type'' of
        None \<Rightarrow> raise (AttributeError ''arg'')
      | Some type_stmt \<Rightarrow>
          bind
            (if arg type_stmt = ''uint32'' then
               (let type_str = ''com.tailf.confm.xs.UnsignedInt'' in
                bind (lift (set_value sub prefix_name type_str '''')) (\<lambda>m1.
                bind (lift (set_value sub '''' ''String'' type_str)) (\<lambda>m2.
                bind (lift (set_value sub '''' ''long'' type_str)) (\<lambda>m3.
                ret (m1 @ m2 @ m3, type_str)))))
             else if arg type_stmt = ''string'' then
               (let type_str = ''com.tailf.confm.xs.String'' in
                bind (lift (set_value sub prefix_name type_str '''')) (\<lambda>m1.
                bind (lift (set_value sub '''' ''String'' type_str)) (\<lambda>m2.
                ret (m1 @ m2, type_str))))
             else
               bind (out (unsupported_type_warning c (arg type_stmt))) (\<lambda>_.
               (let type_str = (if debug c \<or> verbose c
                                then Some ''com.tailf.confm.xs.String'' else type_str) in
                bind (read_type_str type_str) (\<lambda>t.
                bind (lift (set_value sub prefix_name t '''')) (\<lambda>m1.
                bind (lift (set_value sub '''' ''String'' t)) (\<lambda>m2.
                ret (m1 @ m2, t)))))))
            (\<lambda>(setters, type_str).
               ret (access_methods_comment sub False @ child_iterator sub @ setters @
                    delete_stmt sub [(type_str, arg sub @ ''Value'')] False False @
                    delete_stmt sub [(type_str, arg sub @ ''Value'')] True False @
                    add_value sub prefix_name @
                    mark sub ''replace'' type_str @ mark sub ''replace'' ''String'' @
                    mark sub ''merge'' type_str @ mark sub ''merge'' ''String'' @
                    mark sub ''create'' type_str @ mark sub ''create'' ''String'' @
                    mark sub ''delete'' type_str @ mark sub ''delete'' ''String'',
                    Some type_str)))\<close>

text \<open>The branch \<^verbatim>\<open>sub.keyword == 'list'\<close>, after the class of \<open>sub\<close> has been
  generated.\<close>

definition list_methods :: \<open>ctx \<Rightarrow> stmt \<Rightarrow> string io\<close> where
  \<open>list_methods c sub =
     bind (extract_keys c sub) (\<lambda>(key, only_strings, confm_keys, primitive_keys).
       ret (access_methods_comment sub False @
            get_stmt sub confm_keys False @
            get_stmt sub confm_keys True @
            child_iterator sub @
            add_stmt sub [(arg sub, arg sub)] False False @
            add_stmt sub confm_keys False False @
            add_stmt sub confm_keys False True @
            add_stmt sub [] False False @
            delete_stmt sub confm_keys False True @
            delete_stmt sub confm_keys True True))\<close>

text \<open>The branch \<^verbatim>\<open>sub.keyword == 'container'\<close>, after the class of \<open>sub\<close> has been
  generated.\<close>

definition container_methods :: \<open>stmt \<Rightarrow> string\<close> where
  \<open>container_methods sub =
     access_methods_comment sub False @
     child_field sub @
     add_stmt sub [(arg sub, arg sub)] True False @
     add_stmt sub [] True False @
     delete_stmt sub [] False True\<close>

text \<open>The state of the loop over the sub-statements:
  \<^verbatim>\<open>(access_methods, fields, type_str)\<close>. \<open>loop_step\<close> is one iteration, without the
  recursive call that the branches for lists and containers start with.\<close>

type_synonym loop_state = \<open>string \<times> string list \<times> string option\<close>

definition loop_step :: \<open>ctx \<Rightarrow> stmt \<Rightarrow> stmt \<Rightarrow> string \<Rightarrow> loop_state \<Rightarrow> loop_state io\<close> where
  \<open>loop_step c s sub prefix_name st =
     (case st of (access_methods, flds, type_str) \<Rightarrow>
        if keyword sub = ''list'' then
          bind (list_methods c sub) (\<lambda>methods. ret (access_methods @ methods, flds, type_str))
        else if keyword sub = ''container'' then
          ret (access_methods @ container_methods sub, flds @ [arg sub], type_str)
        else if keyword sub = ''leaf'' then
          bind (leaf_methods c s sub prefix_name type_str) (\<lambda>(methods, type_str).
            ret (access_methods @ methods, flds, type_str))
        else if keyword sub = ''leaf-list'' then
          bind (leaf_list_methods c sub prefix_name type_str) (\<lambda>(methods, type_str).
            ret (access_methods @ methods, flds, type_str))
        else if keyword sub = ''uses'' then
          bind (out [Stdout (''USES..... '' @ arg sub)]) (\<lambda>_. ret st)
        else if keyword sub = ''grouping'' then
          bind (out [Stdout (''Grouping: '' @ arg sub)]) (\<lambda>_. ret st)
        else
          bind (out [Stdout (keyword sub @ '': '' @ arg sub)]) (\<lambda>_. ret st))\<close>

text \<open>The constructors of the class of a list statement, one text per call of
  \<^verbatim>\<open>constructor\<close>; the class text holds them concatenated, in this order.\<close>

definition list_constructors :: \<open>ctx \<Rightarrow> stmt \<Rightarrow> string \<Rightarrow> bool \<Rightarrow> (stmt \<times> string list) io\<close> where
  \<open>list_constructors c s prefix_name top_level =
     bind (extract_keys c s) (\<lambda>(key, only_strings, confm_keys, primitive_keys).
     bind (lift (constructor s c prefix_name top_level 0 []
                   (''\<newline>'' @
                     ''        throws INMException''))) (\<lambda>c0.
     bind (lift (constructor s c prefix_name top_level 1 confm_keys (''\<newline>'' @
       ''        throws INMException''))) (\<lambda>c1.
     bind (lift (constructor s c prefix_name top_level 2 primitive_keys (''\<newline>'' @
       ''        throws INMException''))) (\<lambda>c2.
     bind (if only_strings = 0
           then bind (lift (constructor s c prefix_name top_level 3 primitive_keys (''\<newline>'' @
             ''        throws INMException''))) (\<lambda>c3. ret [c3])
           else ret []) (\<lambda>more.
     ret (key, [c0, c1, c2] @ more))))))\<close>

text \<open>What \<^verbatim>\<open>generate_class\<close> does after the loop: the constructors and clone methods
  for the kind of statement, and the class file.\<close>

definition write_class ::
  \<open>ctx \<Rightarrow> date \<Rightarrow> stmt \<Rightarrow> string \<Rightarrow> string \<Rightarrow> string \<Rightarrow> string \<Rightarrow> string \<Rightarrow> string \<Rightarrow> bool \<Rightarrow>
   loop_state \<Rightarrow> unit io\<close> where
  \<open>write_class c time s dir package src path ns prefix_name top_level st =
     (case st of (access_methods, flds, type_str) \<Rightarrow>
      case extract_names (arg s) of (filename, name) \<Rightarrow>
        bind (out (if verbose c
                   then [Stdout (''Generating Java class "'' @ filename @ ''"...'')] else [])) (\<lambda>_.
        (let support_methods =
               (if filter (\<lambda>x. is_container x False) (substmts s) \<noteq> []
                then support_add flds else '''')
         in bind
              (if keyword s = ''container'' then
                 bind (lift (constructor s c prefix_name top_level 0 [] '''')) (\<lambda>constructors.
                 ret (constructors, clone name [] False @ clone name [] True))
               else if keyword s = ''list'' then
                 bind (list_constructors c s prefix_name top_level) (\<lambda>(key, cs).
                 ret (concat cs,
                      clone name (map capitalize (split_chr CHR '' '' (arg key))) False @
                      clone name (map capitalize (split_chr CHR '' '' (arg key))) True))
               else ret ('''', ''''))
              (\<lambda>(constructors, cloners).
                 out [FileWrite (dir @ ''/'' @ filename)
                   (java_class time filename package
                      [''com.tailf.confm.*'', ''com.tailf.inm.*'', ''java.util.Hashtable'']
                      (''This class represents a "'' @ path @ arg s @
                       (''" element\<newline>'' @
                         '' * from the namespace '') @ ns)
                      (constructors @ cloners @ key_names s @
                       children_names s @ access_methods @ support_methods)
                      ''1.0'' '' extends Container'' src)]))))\<close>

text \<open>\<^verbatim>\<open>generate_class(stmt, directory, package, src, path, ns, prefix_name, ctx,
  top_level)\<close> and its loop over the sub-statements.\<close>

fun generate_class ::
  \<open>ctx \<Rightarrow> date \<Rightarrow> stmt \<Rightarrow> string \<Rightarrow> string \<Rightarrow> string \<Rightarrow> string \<Rightarrow> string \<Rightarrow> string \<Rightarrow> bool \<Rightarrow>
   unit io\<close>
and generate_class_loop ::
  \<open>ctx \<Rightarrow> date \<Rightarrow> stmt \<Rightarrow> stmt list \<Rightarrow> string \<Rightarrow> string \<Rightarrow> string \<Rightarrow> string \<Rightarrow> string \<Rightarrow>
   string \<Rightarrow> loop_state \<Rightarrow> loop_state io\<close> where
  \<open>generate_class c time (Statement kw a subs) dir package src path ns prefix_name top_level =
     (case generate_class_loop c time (Statement kw a subs) subs dir package src path ns
             prefix_name ('''', [], None) of
        (evs, Inl e) \<Rightarrow> (evs, Inl e)
      | (evs, Inr st) \<Rightarrow>
          (case write_class c time (Statement kw a subs) dir package src path ns prefix_name
                  top_level st of
             (evs', r) \<Rightarrow> (evs @ evs', r)))\<close>
| \<open>generate_class_loop c time s [] dir package src path ns prefix_name st = ret st\<close>
| \<open>generate_class_loop c time s (sub # rest) dir package src path ns prefix_name st =
     (case (if keyword sub = ''list'' \<or> keyword sub = ''container''
            then generate_class c time sub dir package src (path @ arg s @ ''/'') ns
                   prefix_name False
            else ret ()) of
        (evs, Inl e) \<Rightarrow> (evs, Inl e)
      | (evs, Inr _) \<Rightarrow>
          (case loop_step c s sub prefix_name st of
             (evs', Inl e) \<Rightarrow> (evs @ evs', Inl e)
           | (evs', Inr st') \<Rightarrow>
               (case generate_class_loop c time s rest dir package src path ns prefix_name st' of
                  (evs'', r) \<Rightarrow> (evs @ evs' @ evs'', r))))\<close>

section \<open>The classes of a module and the loop of \<^verbatim>\<open>emit\<close>\<close>

fun generate_classes_loop ::
  \<open>ctx \<Rightarrow> date \<Rightarrow> stmt list \<Rightarrow> string \<Rightarrow> string \<Rightarrow> string \<Rightarrow> string \<Rightarrow> string \<Rightarrow> unit io\<close> where
  \<open>generate_classes_loop c time [] dir package src ns_arg name = ret ()\<close>
| \<open>generate_classes_loop c time (s # ss) dir package src ns_arg name =
     bind (if keyword s = ''container'' \<or> keyword s = ''list''
           then generate_class c time s dir package src '''' ns_arg name True
           else ret ())
       (\<lambda>_. generate_classes_loop c time ss dir package src ns_arg name)\<close>

text \<open>\<^verbatim>\<open>generate_classes(module, directory, package, src, ctx)\<close>. For a keyword that is
  neither \<^verbatim>\<open>module\<close> nor \<^verbatim>\<open>submodule\<close> the variable \<^verbatim>\<open>prefix\<close> is read unassigned.\<close>

definition generate_classes ::
  \<open>ctx \<Rightarrow> date \<Rightarrow> stmt \<Rightarrow> string \<Rightarrow> string \<Rightarrow> string \<Rightarrow> unit io\<close> where
  \<open>generate_classes c time module dir package src =
     bind
       (if keyword module = ''module'' then
          (case search_one module ''namespace'' of
             None \<Rightarrow> raise (AttributeError ''arg'')
           | Some n \<Rightarrow>
               (case search_one module ''prefix'' of
                  None \<Rightarrow> raise (AttributeError ''arg'')
                | Some prefix \<Rightarrow> ret (arg n, prefix)))
        else if keyword module = ''submodule'' then
          (case search_one module ''belongs-to'' of
             None \<Rightarrow> raise (AttributeError ''search_one'')
           | Some parent_module \<Rightarrow>
               (case search_one parent_module ''prefix'' of
                  None \<Rightarrow> raise (AttributeError ''arg'')
                | Some prefix \<Rightarrow> ret (''<unknown/prefix: '' @ arg prefix @ ''>'', prefix)))
        else raise (UnboundLocalError ''prefix''))
       (\<lambda>(ns_arg, prefix).
          case extract_names (arg prefix) of (filename, name) \<Rightarrow>
          bind (generate_classes_loop c time (substmts module) dir package src ns_arg name) (\<lambda>_.
          bind (out (if verbose c
                     then [Stdout (''Generating Java class "'' @ filename @ ''"...'')] else [])) (\<lambda>_.
          out [FileWrite (dir @ ''/'' @ filename)
            (java_class time filename package
               [''com.tailf.confm.*'', ''com.tailf.inm.*'', ''java.util.Hashtable'']
               (''The root class for namespace '' @ ns_arg @
                ('' (accessible from \<newline>'' @
                  '' * '') @ name @ ''.NAMESPACE) with prefix "'' @
                arg prefix @ ''" ('' @ name @ ''.PREFIX).'')
               (class_fields ns_arg (arg prefix) @ enable name @ register_schema name)
               ''1.0'' '''' src)])))\<close>

text \<open>
  What the loop of \<^verbatim>\<open>emit\<close> reads from its surroundings: the working directory after the
  change into the output directory (\<^verbatim>\<open>os.getcwd()\<close>), the date, and pyang's
  \<^verbatim>\<open>util.get_latest_revision\<close>. Creating the directory, listing it and running
  \<^verbatim>\<open>javadoc\<close> are not modelled; a written file is a \<^const>\<open>FileWrite\<close> event with its path
  and text, and writing is taken to succeed.
\<close>

record env =
  cwd :: string
  today :: date
  get_latest_revision :: \<open>stmt \<Rightarrow> string\<close>

definition write_schema :: \<open>ctx \<Rightarrow> env \<Rightarrow> stmt \<Rightarrow> unit io\<close> where
  \<open>write_schema c e module =
     (case search_one module ''namespace'' of
        None \<Rightarrow> raise (AttributeError ''arg'')
      | Some n \<Rightarrow>
     (case search_one module ''prefix'' of
        None \<Rightarrow> raise (AttributeError ''arg'')
      | Some p \<Rightarrow>
          (let ns = arg n; name = capitalize (arg p) in
           bind (lift (schema_node c None module ''/'' ns)) (\<lambda>node.
           bind (lift (schema_nodes c (Some module) (substmts module) ''/'' ns)) (\<lambda>nodes.
           bind (out [FileWrite (cwd e @ ''/'' @ name @ ''.schema'')
                   (''<schema>\<newline>'' @
                    indent (splitlines (''<node>\<newline>'' @ indent node 1 @ (''\<newline>'' @
                      ''</node>'') @ nodes)) 1 @
                    (''\<newline>'' @
                      ''</schema>''))]) (\<lambda>_.
           out (if debug c \<or> verbose c then [Stdout ''Schema generation COMPLETE.''] else [])))))))\<close>

text \<open>The body of the loop \<^verbatim>\<open>for module in modules\<close> of \<^verbatim>\<open>emit\<close>.\<close>

definition emit_module :: \<open>ctx \<Rightarrow> env \<Rightarrow> stmt \<Rightarrow> unit io\<close> where
  \<open>emit_module c e module =
     (if keyword module = ''module'' \<or> keyword module = ''submodule'' then
        bind (if \<not> no_schema c then write_schema c e module else ret ()) (\<lambda>_.
        (let src = ''module "'' @ arg module @ ''", revision: "'' @
               get_latest_revision e module @ ''".'' in
         bind (generate_classes c (today e) module (cwd e) (directory c) src) (\<lambda>_.
         bind (out (if keyword module = ''submodule''
                    then [Stderr ''Warning: no support for submodule''] else [])) (\<lambda>_.
         out (if debug c \<or> verbose c
              then [Stdout ''Java classes generation COMPLETE.''] else [])))))
      else
        bind (out [Stderr (''Error: unrecognized keyword: '' @ keyword module @
                     ''top-level element should be module or submodule'')]) (\<lambda>_.
        raise (EmitError 1)))\<close>


section \<open>The documentation index\<close>

text \<open>A class hierarchy is a list whose entries are file names and lists of the same
  kind.\<close>

datatype hier = File string | Children \<open>hier list\<close>

text \<open>\<^verbatim>\<open>generate_javadoc(stmts, java_files, ctx)\<close> removes the names it finds from
  \<^verbatim>\<open>java_files\<close>; the list left over is the second component of the result.\<close>

fun generate_javadoc :: \<open>stmt list \<Rightarrow> string list \<Rightarrow> hier list \<times> string list\<close> where
  \<open>generate_javadoc [] java_files = ([], java_files)\<close>
| \<open>generate_javadoc (Statement kw a subs # ss) java_files =
     (case extract_names a of (filename, name) \<Rightarrow>
        if filename \<in> set java_files then
          (case generate_javadoc subs (remove1 filename java_files) of
             (children, java_files) \<Rightarrow>
               (case generate_javadoc ss java_files of
                  (hierarchy, java_files) \<Rightarrow>
                    (File filename # (if children \<noteq> [] then [Children children] else []) @
                       hierarchy,
                     java_files)))
        else generate_javadoc ss java_files)\<close>

definition html_list :: \<open>string \<Rightarrow> nat \<Rightarrow> string \<Rightarrow> string\<close> where
  \<open>html_list body indent_level tag =
     (let body = ''<'' @ tag @ ''>\<newline>'' @ body;
          body = (if last_from 1 body \<noteq> ''\<newline>'' then body @ ''\<newline>'' else body);
          body = body @ ''</'' @ tag @ ''>''
      in indent (split_chr LF body) indent_level)\<close>

fun parse_hierarchy :: \<open>hier list \<Rightarrow> string\<close> where
  \<open>parse_hierarchy [] = ''''\<close>
| \<open>parse_hierarchy (File entry # hierarchy) =
     (let body = ''    <a href="'' @ but_last 5 entry @ ''.html">'' @ but_last 5 entry @
            ''</a>''
      in html_list body 1 ''li'' @
         (if last_from 1 body \<noteq> ''\<newline>'' then ''\<newline>'' else '''') @
         parse_hierarchy hierarchy)\<close>
| \<open>parse_hierarchy (Children entry # hierarchy) =
     (let body = parse_hierarchy entry
      in html_list body 1 ''ul'' @
         (if last_from 1 body \<noteq> ''\<newline>'' then ''\<newline>'' else '''') @
         parse_hierarchy hierarchy)\<close>

definition decapitalize :: \<open>string \<Rightarrow> string\<close> where
  \<open>decapitalize s = (if s \<noteq> [] then map tolower (take 1 s) @ drop 1 s else '''')\<close>

text \<open>The revision that \<^verbatim>\<open>gen_package\<close> reports for a module: the value of
  \<^verbatim>\<open>ctx.revs[module_arg][-1:][:0]\<close>, replaced by \<^verbatim>\<open>'unknown'\<close> when it is empty. A
  list that is not empty cannot be concatenated to a string.\<close>

definition package_rev :: \<open>ctx \<Rightarrow> string \<Rightarrow> string io\<close> where
  \<open>package_rev c module_arg =
     (case revs c module_arg of
        None \<Rightarrow> raise (KeyError module_arg)
      | Some entries \<Rightarrow>
          (let rev = take 0 (last_from 1 entries)
           in if rev = [] then ret ''unknown'' else raise (TypeError ''list'')))\<close>

text \<open>The loop of \<^verbatim>\<open>gen_package\<close> over the top-level entries; its state is \<^verbatim>\<open>src\<close>.\<close>

fun package_src :: \<open>ctx \<Rightarrow> string list \<Rightarrow> string \<Rightarrow> string io\<close> where
  \<open>package_src c [] src = ret src\<close>
| \<open>package_src c (entry # entries) src =
     (let module_arg = decapitalize (but_last 5 entry) in
      bind (package_rev c module_arg) (\<lambda>rev.
      package_src c entries (src @ ''module "'' @ module_arg @ ''" (rev "'' @ rev @ ''"), '')))\<close>

fun top_level_entries :: \<open>hier list \<Rightarrow> string list\<close> where
  \<open>top_level_entries [] = []\<close>
| \<open>top_level_entries (File entry # hierarchy) = entry # top_level_entries hierarchy\<close>
| \<open>top_level_entries (Children entry # hierarchy) = top_level_entries hierarchy\<close>

text \<open>The text of \<^verbatim>\<open>package-info.java\<close>, from the value of \<^verbatim>\<open>src\<close> after the loop.\<close>

definition package_info :: \<open>hier list \<Rightarrow> string \<Rightarrow> string \<Rightarrow> string\<close> where
  \<open>package_info class_hierarchy package src =
     (let source = (if length (top_level_entries class_hierarchy) > 1 then ''s'' else '''') @
            ''\<newline>'' @ but_last 2 src;
          html_hierarchy = html_list (parse_hierarchy class_hierarchy) 0 ''ul'';
          specification = (''\<newline>'' @
            ''This class hierarchy was generated from the Yang module'') @ source @
'' by the <a target="_top" href="https://github.com/Emil-Tail-f/JPyang">'' @
''JPyang</a> plugin of <a target="_top" '' @
(''href="http://code.google.com/p/pyang/">pyang</a>.\<newline>'' @
  ''The generated classes may be used to manipulate pieces of configuration data\<newline>'' @
  ''with NETCONF operations such as edit-config, delete-config and lock. These\<newline>'' @
  ''operations are typically accessed through the ConfM Java library by\<newline>'' @
  ''instantiating Device objects and setting up NETCONF sessions with real devices\<newline>'' @
  ''using a compatible YANG model.\<newline>'' @
  ''\<newline>'')
      in ''/**'' @ java_docify (specification @ html_hierarchy) @ (''\<newline>'' @
        '' *\<newline>'' @
        '' * @see <a target="_top" href="https://github.com/Emil-Tail-f/JPyang">'') @
    (''JPyang project page</a>\<newline>'' @
      '' * @see <a target="_top" '') @
    ''href="ftp://ftp.rfc-editor.org/in-notes/rfc6020.txt">'' @
    ''RFC 6020: YANG - A Data Modeling Language for the Network '' @
    (''Configuration Protocol (NETCONF)</a>\<newline>'' @
      '' * @see <a target="_top" '') @
    ''href="ftp://ftp.rfc-editor.org/in-notes/rfc6241.txt">RFC 6241: '' @
    (''Network Configuration Protocol (NETCONF)</a>\<newline>'' @
      '' * @see <a '') @
    ''target="_top" href="ftp://ftp.rfc-editor.org/in-notes/rfc6242.txt">'' @
    ''RFC 6242: Using the NETCONF Protocol over Secure Shell (SSH)</a>\<newline>'' @
    '' * @see <a target="_top" href="http://www.tail-f.com">Tail-f '' @
    (''Systems</a>\<newline>'' @
      '' */\<newline>'' @
      ''package '') @ package @ '';'')\<close>

definition gen_package :: \<open>hier list \<Rightarrow> string \<Rightarrow> ctx \<Rightarrow> unit io\<close> where
  \<open>gen_package class_hierarchy package c =
     bind (out (if verbose c
                then [Stdout ''Generating package description package-info.java...'']
                else [])) (\<lambda>_.
     bind (package_src c (top_level_entries class_hierarchy) '''') (\<lambda>src.
     out [FileWrite ''package-info.java'' (package_info class_hierarchy package src)]))\<close>

section \<open>Auxiliary definitions for the statements and examples\<close>

text \<open>The wrapped and the primitive type that \<^verbatim>\<open>extract_keys\<close> resolves a type name to,
  with the warning it prints for a name it does not know (read off the three branches of
  its loop).\<close>

definition key_types :: "ctx \<Rightarrow> string \<Rightarrow> event list \<times> string \<times> string" where
  "key_types c t =
     (if t = ''string'' then ([], ''com.tailf.confm.xs.String'', ''String'')
      else if t = ''uint32'' then ([], ''com.tailf.confm.xs.UnsignedInt'', ''long'')
      else (unsupported_type_warning c t, ''com.tailf.confm.xs.String'', ''String''))"

text \<open>Example inputs: a context with every flag off, and a leaf with a type.\<close>

definition quiet :: ctx where
  "quiet = \<lparr>debug = False, verbose = False, no_schema = False, directory = ''gen'',
            revs = (\<lambda>_. None)\<rparr>"

definition leaf_of :: "string \<Rightarrow> string \<Rightarrow> stmt" where
  "leaf_of t n = Statement ''leaf'' n [Statement ''type'' t []]"

text \<open>A list with the key \<^verbatim>\<open>k\<close>, its key leaf and a second leaf that is mandatory.\<close>

definition mandatory_leaf :: stmt where
  "mandatory_leaf =
     Statement ''leaf'' ''m'' [Statement ''type'' ''string'' [], Statement ''mandatory'' ''true'' []]"

definition keyed_list :: stmt where
  "keyed_list =
     Statement ''list'' ''l'' [Statement ''key'' ''k'' [], leaf_of ''string'' ''k'', mandatory_leaf]"

text \<open>The value of \<^verbatim>\<open>src\<close> in \<^verbatim>\<open>gen_package\<close> when every module is reported with
  the revision \<^verbatim>\<open>unknown\<close>, and a context whose \<^verbatim>\<open>revs\<close> knows two revisions of a
  module.\<close>

definition unknown_src :: "string list \<Rightarrow> string" where
  "unknown_src entries =
     concat (map (\<lambda>entry. ''module \"'' @ decapitalize (but_last 5 entry) @ ''\" (rev \"unknown\"), '')
       entries)"

definition with_revs :: ctx where
  "with_revs = quiet\<lparr>revs := (\<lambda>m. if m = ''acme'' then Some [(''2012-01-01'', ''acme.yang''), (''2012-06-01'', ''acme.yang'')] else None)\<rparr>"








text \<open>Example inputs: surroundings of a run, and a module whose list \<^verbatim>\<open>l\<close>, inside a
  container, names the key leaves \<^verbatim>\<open>a\<close> and \<^verbatim>\<open>b\<close> but has only the leaf \<^verbatim>\<open>a\<close>.\<close>

definition env0 :: env where
  "env0 = \<lparr>cwd = ''/out'', today = \<lparr>year = 2012, month = 5, day = 7\<rparr>,
           get_latest_revision = (\<lambda>_. ''unknown'')\<rparr>"



text \<open>The diagnostics among the events are the lines written to \<^verbatim>\<open>sys.stderr\<close>. Example
  inputs: a container with a \<^verbatim>\<open>uint32\<close> leaf followed by a \<^verbatim>\<open>decimal64\<close> leaf, and a
  context with the debug flag on.\<close>

fun diagnostics :: "event list \<Rightarrow> event list" where
  "diagnostics [] = []"
| "diagnostics (Stderr x # evs) = Stderr x # diagnostics evs"
| "diagnostics (Stdout x # evs) = diagnostics evs"
| "diagnostics (FileWrite p x # evs) = diagnostics evs"



text \<open>The paths of the files written among the events; the value of \<^verbatim>\<open>src\<close> in the loop
  of \<^verbatim>\<open>emit\<close>. Example inputs: a context with \<^verbatim>\<open>--jpyang-no-schema\<close>, and a submodule
  with one container.\<close>

fun written_paths :: "event list \<Rightarrow> string list" where
  "written_paths [] = []"
| "written_paths (FileWrite p x # evs) = p # written_paths evs"
| "written_paths (Stdout x # evs) = written_paths evs"
| "written_paths (Stderr x # evs) = written_paths evs"

definition emit_src :: "env \<Rightarrow> stmt \<Rightarrow> string" where
  "emit_src e m =
     ''module \"'' @ arg m @ ''\", revision: \"'' @ get_latest_revision e m @ ''\".''"

definition without_schema :: ctx where
  "without_schema = quiet\<lparr>no_schema := True\<rparr>"

definition submodule_example :: stmt where
  "submodule_example =
     Statement ''submodule'' ''acme-types''
       [Statement ''belongs-to'' ''acme'' [Statement ''prefix'' ''acme'' []],
        Statement ''container'' ''top'' [leaf_of ''string'' ''name'']]"


definition boolean_submodule :: stmt where
  "boolean_submodule =
     Statement ''submodule'' ''acme-types''
       [Statement ''belongs-to'' ''acme'' [Statement ''prefix'' ''acme'' []],
        Statement ''container'' ''top'' [leaf_of ''boolean'' ''enabled'']]"







section \<open>Properties of the string operations\<close>

lemma toupper_idem: \<open>toupper (toupper c) = toupper c\<close>
proof (cases \<open>97 \<le> (of_char c :: nat) \<and> (of_char c :: nat) \<le> 122\<close>)
  case True
  then have \<open>(of_char c - 32 :: nat) < 256\<close> by arith
  then have \<open>(of_char c - 32 :: nat) mod 256 = of_char c - 32\<close> by (rule mod_less)
  with True show ?thesis by (auto simp: toupper_def Let_def)
next
  case False
  then show ?thesis by (auto simp: toupper_def Let_def)
qed

lemma tolower_idem: \<open>tolower (tolower c) = tolower c\<close>
proof (cases \<open>65 \<le> (of_char c :: nat) \<and> (of_char c :: nat) \<le> 90\<close>)
  case True
  then have \<open>(of_char c + 32 :: nat) < 256\<close> by arith
  then have \<open>(of_char c + 32 :: nat) mod 256 = of_char c + 32\<close> by (rule mod_less)
  with True show ?thesis by (auto simp: tolower_def Let_def)
next
  case False
  then show ?thesis by (auto simp: tolower_def Let_def)
qed

lemma capitalize_idem: \<open>capitalize (capitalize s) = capitalize s\<close>
  by (cases s) (simp_all add: toupper_idem tolower_idem)

lemma split_chr_no_sep: \<open>sep \<notin> set x \<Longrightarrow> split_chr sep x = [x]\<close>
  by (induction x) auto

lemma split_chr_app: \<open>sep \<notin> set x \<Longrightarrow> split_chr sep (x @ sep # r) = x # split_chr sep r\<close>
  by (induction x) auto

lemma split_chr_join:
  \<open>ids \<noteq> [] \<Longrightarrow> \<forall>i\<in>set ids. sep \<notin> set i \<Longrightarrow> split_chr sep (join [sep] ids) = ids\<close>
  by (induction \<open>[sep]\<close> ids rule: join.induct) (auto simp: split_chr_no_sep split_chr_app)

section \<open>Properties of the effects and of key extraction\<close>

lemma bind_ret [simp]: "bind (ret x) f = f x"
  by (simp add: bind_def ret_def split: prod.splits)
lemma bind_raise [simp]: "bind (raise e) f = raise e"
  by (simp add: bind_def raise_def)
lemma bind_out: "bind (out evs) f = (evs @ fst (f ()), snd (f ()))"
  by (simp add: bind_def out_def split: prod.splits sum.splits)
lemma bind_Inr_iff:
  "bind m f = (evs, Inr y) \<longleftrightarrow> (\<exists>e1 x e2. m = (e1, Inr x) \<and> f x = (e2, Inr y) \<and> evs = e1 @ e2)"
  by (cases m) (auto simp: bind_def split: sum.splits prod.splits)
lemma bind_Inl_iff:
  "bind m f = (evs, Inl e) \<longleftrightarrow>
     m = (evs, Inl e) \<or> (\<exists>e1 x e2. m = (e1, Inr x) \<and> f x = (e2, Inl e) \<and> evs = e1 @ e2)"
  by (cases m) (auto simp: bind_def split: sum.splits prod.splits)

lemma extract_keys_loop_Cons:
  assumes "search_one_arg s ''leaf'' a = Some leaf" "search_one leaf ''type'' = Some t"
  shows "extract_keys_loop c s (a # as) (os, ck, pk) =
           (case key_types c (arg t) of (ev, ct, pt) \<Rightarrow>
              (case extract_keys_loop c s as
                      (os * (if pt = ''String'' then 1 else 0), ck @ [(ct, a)], pk @ [(pt, a)]) of
                 (evs, r) \<Rightarrow> (ev @ evs, r)))"
  using assms
  by (simp add: key_types_def bind_def ret_def out_def split: prod.splits sum.splits)

lemma extract_keys_loop_names:
  "extract_keys_loop c s as (os, ck, pk) = (evs, Inr (os', ck', pk')) \<Longrightarrow>
   map snd ck' = map snd ck @ as \<and> map snd pk' = map snd pk @ as"
proof (induction as arbitrary: os ck pk evs)
  case Nil
  then show ?case by (simp add: ret_def)
next
  case (Cons a as)
  from Cons.prems obtain leaf where l: "search_one_arg s ''leaf'' a = Some leaf"
    by (cases "search_one_arg s ''leaf'' a") (auto simp: raise_def)
  from Cons.prems l obtain t where t: "search_one leaf ''type'' = Some t"
    by (cases "search_one leaf ''type''") (auto simp: raise_def)
  obtain ev ct pt where k: "key_types c (arg t) = (ev, ct, pt)" by (rule prod_cases3)
  from Cons.prems obtain evs' where
    "extract_keys_loop c s as
       (os * (if pt = ''String'' then 1 else 0), ck @ [(ct, a)], pk @ [(pt, a)]) =
     (evs', Inr (os', ck', pk'))"
    unfolding extract_keys_loop_Cons[OF l t] k by (auto split: prod.splits)
  from Cons.IH[OF this] show ?case by simp
qed

lemma extract_keys_loop_total:
  "\<forall>a\<in>set as. \<exists>leaf. search_one_arg s ''leaf'' a = Some leaf \<and> search_one leaf ''type'' \<noteq> None \<Longrightarrow>
   \<exists>evs r. extract_keys_loop c s as acc = (evs, Inr r)"
proof (induction as arbitrary: acc)
  case Nil
  then show ?case by (simp add: ret_def del: split_paired_Ex)
next
  case (Cons a as acc)
  from Cons.prems obtain leaf t where l: "search_one_arg s ''leaf'' a = Some leaf" "search_one leaf ''type'' = Some t"
    by auto
  from Cons.prems have rest: "\<forall>a\<in>set as. \<exists>leaf. search_one_arg s ''leaf'' a = Some leaf \<and> search_one leaf ''type'' \<noteq> None"
    by simp
  obtain os ck pk where acc: "acc = (os, ck, pk)" by (rule prod_cases3)
  obtain ev ct pt where k: "key_types c (arg t) = (ev, ct, pt)" by (rule prod_cases3)
  from Cons.IH[OF rest] obtain evs r where
    "extract_keys_loop c s as
       (os * (if pt = ''String'' then 1 else 0), ck @ [(ct, a)], pk @ [(pt, a)]) = (evs, Inr r)"
    by blast
  then show ?case unfolding acc extract_keys_loop_Cons[OF l] k by (simp del: split_paired_Ex)
qed



subsection \<open>The revision in the package description\<close>

lemma package_rev_cases:
  "package_rev c m = (case revs c m of None \<Rightarrow> raise (KeyError m) | Some entries \<Rightarrow> ret ''unknown'')"
  by (simp add: package_rev_def split: option.splits)

lemma package_src_cases:
  "(\<exists>k. package_src c entries src = ([], Inl (KeyError k))) \<or>
   package_src c entries src = ([], Inr (src @ unknown_src entries))"
proof (induction entries arbitrary: src)
  case Nil
  then show ?case by (simp add: ret_def unknown_src_def)
next
  case (Cons entry entries src)
  show ?case
  proof (cases "revs c (decapitalize (but_last 5 entry))")
    case None
    then show ?thesis by (simp add: package_rev_cases Let_def bind_def raise_def)
  next
    case (Some a)
    from Cons.IH[of "src @ ''module \"'' @ decapitalize (but_last 5 entry) @ ''\" (rev \"'' @ ''unknown'' @ ''\"), ''"]
    show ?thesis using Some by (auto simp: package_rev_cases Let_def unknown_src_def)
  qed
qed

subsection \<open>The constructors of a list class\<close>








subsection \<open>An exception in a class ends the loop of \<^verbatim>\<open>emit\<close>\<close>




lemma bind_aborts:
  assumes "\<And>x. \<exists>evs e. f x = (evs, Inl e)"
  shows "\<exists>evs e. bind m f = (evs, Inl e)"
proof -
  obtain e0 r0 where m: "m = (e0, r0)" by (rule prod.exhaust)
  show ?thesis
  proof (cases r0)
    case (Inl e)
    with m show ?thesis by (simp add: bind_def)
  next
    case (Inr x)
    from assms[of x] obtain evs e where "f x = (evs, Inl e)" by blast
    with m Inr show ?thesis by (simp add: bind_def)
  qed
qed











subsection \<open>Leaves and leaf-lists of an unsupported type\<close>

lemma diagnostics_append [simp]: "diagnostics (xs @ ys) = diagnostics xs @ diagnostics ys"
  by (induction xs rule: diagnostics.induct) auto

lemma set_value_events: "\<exists>x. fst (set_value s prefix arg_type confm_type) = [Stdout x]"
  by (simp add: set_value_def Let_def split: prod.splits)

lemma set_value_diagnostics [simp]:
  "diagnostics (fst (set_value s prefix arg_type confm_type)) = []"
  using set_value_events[of s prefix arg_type confm_type] by auto



subsection \<open>The files written for a submodule\<close>

lemma written_paths_append [simp]:
  "written_paths (xs @ ys) = written_paths xs @ written_paths ys"
  by (induction xs rule: written_paths.induct) auto

lemma write_class_last:
  assumes "write_class c time s dir package src path ns prefix_name top_level st = (evs, Inr u)"
  shows "\<exists>evs' x. evs = evs' @ [FileWrite (dir @ ''/'' @ fst (extract_names (arg s))) x]"
  using assms
  by (auto simp: write_class_def bind_Inr_iff out_def Let_def split: prod.splits)

lemma generate_class_last:
  assumes "generate_class c time s dir package src path ns prefix_name top_level = (evs, Inr u)"
  shows "\<exists>evs' x. evs = evs' @ [FileWrite (dir @ ''/'' @ fst (extract_names (arg s))) x]"
proof -
  obtain kw a subs where s: "s = Statement kw a subs" by (cases s) auto
  from assms obtain e1 st e2 where
    "write_class c time s dir package src path ns prefix_name top_level st = (e2, Inr u)"
    "evs = e1 @ e2"
    unfolding s by (auto split: prod.splits sum.splits)
  with write_class_last[OF this(1)] show ?thesis by auto
qed

lemma generate_classes_loop_written:
  assumes "generate_classes_loop c time subs dir package src ns_arg name = (evs, Inr u)"
    and "cls \<in> set subs" and "keyword cls = ''container'' \<or> keyword cls = ''list''"
  shows "dir @ ''/'' @ fst (extract_names (arg cls)) \<in> set (written_paths evs)"
  using assms(1,2)
proof (induction subs arbitrary: evs)
  case Nil
  then show ?case by simp
next
  case (Cons x rest evs)
  from Cons.prems(1) obtain e1 e2 where
    g: "(if keyword x = ''container'' \<or> keyword x = ''list''
         then generate_class c time x dir package src [] ns_arg name True
         else ret ()) = (e1, Inr ())"
    and r: "generate_classes_loop c time rest dir package src ns_arg name = (e2, Inr u)"
    and evs: "evs = e1 @ e2"
    by (auto simp: bind_Inr_iff)
  show ?case
  proof (cases "cls = x")
    case True
    with assms(3) g have "generate_class c time x dir package src [] ns_arg name True = (e1, Inr ())"
      by simp
    from generate_class_last[OF this] True evs show ?thesis by auto
  next
    case False
    with Cons.prems(2) have "cls \<in> set rest" by simp
    from Cons.IH[OF r this] evs show ?thesis by simp
  qed
qed

lemma generate_classes_submodule:
  assumes "keyword m = ''submodule''"
    and "generate_classes c time m dir package src = (evs, Inr u)"
  shows "\<exists>b p. search_one m ''belongs-to'' = Some b \<and> search_one b ''prefix'' = Some p \<and>
           written_paths evs \<noteq> [] \<and>
           last (written_paths evs) = dir @ ''/'' @ capitalize (arg p) @ ''.java'' \<and>
           (\<forall>cls\<in>set (substmts m). keyword cls = ''container'' \<or> keyword cls = ''list'' \<longrightarrow>
              dir @ ''/'' @ capitalize (arg cls) @ ''.java'' \<in> set (written_paths evs))"
proof -
  from assms obtain b where b: "search_one m ''belongs-to'' = Some b"
    by (cases "search_one m ''belongs-to''") (auto simp: generate_classes_def raise_def bind_def)
  from assms b obtain p where p: "search_one b ''prefix'' = Some p"
    by (cases "search_one b ''prefix''") (auto simp: generate_classes_def raise_def bind_def)
  from assms b p obtain e1 e2 x where
    l: "generate_classes_loop c time (substmts m) dir package src
          (''<unknown/prefix: '' @ arg p @ ''>'') (capitalize (arg p)) = (e1, Inr ())"
    and evs: "evs = e1 @ e2 @ [FileWrite (dir @ ''/'' @ capitalize (arg p) @ ''.java'') x]"
    by (auto simp: generate_classes_def bind_Inr_iff ret_def out_def extract_names_def Let_def)
  have "\<forall>cls\<in>set (substmts m). keyword cls = ''container'' \<or> keyword cls = ''list'' \<longrightarrow>
      dir @ ''/'' @ capitalize (arg cls) @ ''.java'' \<in> set (written_paths evs)"
    using generate_classes_loop_written[OF l] evs
    by (auto simp: extract_names_def Let_def)
  with b p evs show ?thesis by simp
qed

subsection \<open>The text of the package description\<close>

lemma tolower_not_break:
  assumes "tolower c = LF \<or> tolower c = CR"
  shows "c = LF \<or> c = CR"
proof (cases "65 \<le> (of_char c :: nat) \<and> (of_char c :: nat) \<le> 90")
  case True
  then have "(of_char c + 32 :: nat) < 256" by arith
  then have m: "(of_char c + 32 :: nat) mod 256 = of_char c + 32" by (rule mod_less)
  from True have t: "tolower c = char_of (of_char c + 32 :: nat)"
    by (simp add: tolower_def Let_def)
  have "(of_char (tolower c) :: nat) = of_char c + 32"
    unfolding t using m by simp
  moreover have "(of_char LF :: nat) = 10" "(of_char CR :: nat) = 13"
    by (simp_all add: LF_def CR_def)
  ultimately show ?thesis using assms True by auto
next
  case False
  then have "tolower c = c" by (auto simp: tolower_def Let_def)
  with assms show ?thesis by simp
qed

lemma decapitalize_one_line:
  assumes "LF \<notin> set s" and "CR \<notin> set s"
  shows "LF \<notin> set (decapitalize s) \<and> CR \<notin> set (decapitalize s)"
proof (cases s)
  case Nil
  then show ?thesis by (simp add: decapitalize_def)
next
  case (Cons a as)
  with assms have "a \<noteq> LF" "a \<noteq> CR" by auto
  with tolower_not_break[of a] have "tolower a \<noteq> LF" "tolower a \<noteq> CR" by auto
  with Cons assms show ?thesis by (auto simp: decapitalize_def)
qed

lemma but_last_subset: "set (but_last n s) \<subseteq> set s"
  by (simp add: but_last_def set_take_subset)

lemma unknown_src_one_line:
  assumes "\<forall>entry\<in>set entries. LF \<notin> set entry \<and> CR \<notin> set entry"
  shows "LF \<notin> set (but_last 2 (unknown_src entries)) \<and> CR \<notin> set (but_last 2 (unknown_src entries))"
proof -
  have "LF \<notin> set (unknown_src entries) \<and> CR \<notin> set (unknown_src entries)"
    using assms
  proof (induction entries)
    case Nil
    then show ?case by (simp add: unknown_src_def)
  next
    case (Cons e es)
    from Cons.prems have "LF \<notin> set (but_last 5 e)" "CR \<notin> set (but_last 5 e)"
      using but_last_subset[of 5 e] by auto
    from decapitalize_one_line[OF this] Cons show ?case
      by (auto simp: unknown_src_def LF_def CR_def)
  qed
  then show ?thesis using but_last_subset[of 2 "unknown_src entries"] by auto
qed

lemma splitlines_from_line:
  assumes "LF \<notin> set x" and "CR \<notin> set x"
  shows "splitlines_from cur (x @ LF # rest) = (rev cur @ x) # splitlines_from [] rest"
  using assms
proof (induction x arbitrary: cur)
  case Nil
  then show ?case by (cases rest) (simp_all add: LF_def CR_def)
next
  case (Cons a x)
  obtain d cs where r: "x @ LF # rest = d # cs" by (cases "x @ LF # rest") simp_all
  from Cons.prems have "a \<noteq> LF" "a \<noteq> CR" by auto
  then have "splitlines_from cur ((a # x) @ LF # rest) = splitlines_from (a # cur) (x @ LF # rest)"
    using r by simp
  also have "\<dots> = (rev (a # cur) @ x) # splitlines_from [] rest"
    using Cons by simp
  finally show ?case by simp
qed

lemma splitlines_from_nonempty: "rest \<noteq> [] \<Longrightarrow> splitlines_from cur rest \<noteq> []"
  by (induction cur rest rule: splitlines_from.induct) auto

lemma but_last_append: "b \<noteq> [] \<Longrightarrow> but_last 1 (a @ b) = a @ but_last 1 b"
  by (cases b) (simp_all add: but_last_def)

lemma java_docify_lines:
  assumes "LF \<notin> set x" and "CR \<notin> set x" and "rest \<noteq> []"
  shows "java_docify (x @ LF # rest) = '' * '' @ x @ [LF] @ java_docify rest"
proof -
  from splitlines_from_nonempty[OF assms(3), of "[]"] obtain l ls where
    l: "splitlines_from [] rest = l # ls" by (cases "splitlines_from [] rest") simp_all
  have ne: "concat (map (\<lambda>row. '' * '' @ row @ ''\<newline>'') (splitlines rest)) \<noteq> []"
    unfolding splitlines_def l by simp
  have s: "splitlines (x @ LF # rest) = x # splitlines rest"
    using splitlines_from_line[OF assms(1,2), of "[]" rest] by (simp add: splitlines_def)
  have "java_docify (x @ LF # rest) =
      but_last 1 (('' * '' @ x @ ''\<newline>'') @
        concat (map (\<lambda>row. '' * '' @ row @ ''\<newline>'') (splitlines rest)))"
    unfolding java_docify_def s by simp
  also have "\<dots> = ('' * '' @ x @ ''\<newline>'') @ java_docify rest"
    unfolding java_docify_def by (rule but_last_append[OF ne])
  finally show ?thesis by (simp add: LF_def)
qed

lemma java_docify_break:
  assumes "rest \<noteq> []"
  shows "java_docify (LF # rest) = '' * '' @ [LF] @ java_docify rest"
  using java_docify_lines[of "[]" rest] assms by simp

lemma join_sep:
  "entries \<noteq> [] \<Longrightarrow> concat (map (\<lambda>e. g e @ sep) entries) = join sep (map g entries) @ sep"
proof (induction entries)
  case Nil
  then show ?case by simp
next
  case (Cons e es)
  then show ?case by (cases es) simp_all
qed

lemma unknown_src_join:
  \<open>but_last 2 (unknown_src entries) =
     join '', '' (map (\<lambda>entry. ''module "'' @ decapitalize (but_last 5 entry) @ ''" (rev "unknown")'') entries)\<close>
proof (cases \<open>entries = []\<close>)
  case True
  then show ?thesis by (simp add: unknown_src_def but_last_def)
next
  case False
  have \<open>unknown_src entries =
      concat (map (\<lambda>e. (''module "'' @ decapitalize (but_last 5 e) @ ''" (rev "unknown")'') @ '', '') entries)\<close>
    by (simp add: unknown_src_def)
  also have \<open>\<dots> = join '', '' (map (\<lambda>entry. ''module "'' @ decapitalize (but_last 5 entry) @ ''" (rev "unknown")'') entries) @ '', ''\<close>
    by (rule join_sep[OF False])
  finally show ?thesis by (simp add: but_last_def)
qed

lemma package_info_text:
  assumes \<open>LF \<notin> set (but_last 2 src)\<close> and \<open>CR \<notin> set (but_last 2 src)\<close>
  shows \<open>\<exists>rest. package_info h package src =
     (''/** * \<newline>'' @
      '' * This class hierarchy was generated from the Yang module'') @
     (if 1 < length (top_level_entries h) then ''s'' else '''') @ (''\<newline>'' @
      '' * '') @ but_last 2 src @
     '' by the <a target="_top" href="https://github.com/Emil-Tail-f/JPyang">JPyang</a> plugin of <a target="_top" href="http://code.google.com/p/pyang/">pyang</a>.\<newline>'' @ rest\<close>
proof -
  define t where \<open>t = ''This class hierarchy was generated from the Yang module'' @
     (if 1 < length (top_level_entries h) then ''s'' else '''')\<close>
  define x where \<open>x = but_last 2 src @
     '' by the <a target="_top" href="https://github.com/Emil-Tail-f/JPyang">JPyang</a> plugin of <a target="_top" href="http://code.google.com/p/pyang/">pyang</a>.''\<close>
  define q where \<open>q =
     (''he generated classes may be used to manipulate pieces of configuration data\<newline>'' @
      ''with NETCONF operations such as edit-config, delete-config and lock. These\<newline>'' @
      ''operations are typically accessed through the ConfM Java library by\<newline>'' @
      ''instantiating Device objects and setting up NETCONF sessions with real devices\<newline>'' @
      ''using a compatible YANG model.\<newline>'' @
      ''\<newline>'') @ html_list (parse_hierarchy h) 0 ''ul''\<close>
  have \<open>\<exists>r. package_info h package src =
      ''/**'' @ java_docify (LF # t @ LF # x @ LF # CHR ''T'' # q) @ r\<close>
    unfolding package_info_def Let_def t_def x_def q_def
    by (simp add: LF_def)
  then obtain r where p: \<open>package_info h package src =
      ''/**'' @ java_docify (LF # t @ LF # x @ LF # CHR ''T'' # q) @ r\<close> by blast
  have t: \<open>LF \<notin> set t\<close> \<open>CR \<notin> set t\<close>
    by (simp_all add: t_def LF_def CR_def)
  have x: \<open>LF \<notin> set x\<close> \<open>CR \<notin> set x\<close>
    using assms by (simp_all add: x_def LF_def CR_def)
  have 1: \<open>java_docify (LF # t @ LF # x @ LF # CHR ''T'' # q) =
      '' * '' @ [LF] @ java_docify (t @ LF # x @ LF # CHR ''T'' # q)\<close>
    by (rule java_docify_break) simp
  have 2: \<open>java_docify (t @ LF # x @ LF # CHR ''T'' # q) =
      '' * '' @ t @ [LF] @ java_docify (x @ LF # CHR ''T'' # q)\<close>
    by (rule java_docify_lines[OF t]) simp
  have 3: \<open>java_docify (x @ LF # CHR ''T'' # q) = '' * '' @ x @ [LF] @ java_docify (CHR ''T'' # q)\<close>
    by (rule java_docify_lines[OF x]) simp
  show ?thesis
    unfolding p 1 2 3 unfolding t_def x_def by (simp add: LF_def)
qed

subsection \<open>The declarations of the accessors\<close>



section \<open>The claims\<close>

text \<open>
  C8. The class name that \<^verbatim>\<open>extract_names\<close> derives from an identifier (the second
  component of its result, the capitalised identifier) is a function of the identifier
  alone, and deriving a class name from a derived class name changes nothing: capitalising
  twice is capitalising once.
\<close>

theorem extract_names_idempotent:
  \<open>snd (extract_names (snd (extract_names s))) = snd (extract_names s)\<close>
  by (simp add: extract_names_def Let_def capitalize_idem)

text \<open>
  C9. \<^verbatim>\<open>extract_keys\<close> needs a \<^verbatim>\<open>key\<close> sub-statement: on every statement without one,
  \<^verbatim>\<open>search_one('key')\<close> is \<^verbatim>\<open>None\<close> and the read of \<^verbatim>\<open>key.arg\<close> raises an
  \<^verbatim>\<open>AttributeError\<close>; nothing is printed and no value is returned.
\<close>

theorem extract_keys_without_key:
  "search_one s ''key'' = None \<Longrightarrow> extract_keys c s = ([], Inl (AttributeError ''arg''))"
  by (simp add: extract_keys_def raise_def)

theorem extract_keys_without_key_witness:
  "search_one (Statement ''container'' ''c'' [leaf_of ''string'' ''a'']) ''key'' = None \<and>
   extract_keys quiet (Statement ''container'' ''c'' [leaf_of ''string'' ''a'']) =
     ([], Inl (AttributeError ''arg''))"
  using extract_keys_without_key[of "Statement ''container'' ''c'' [leaf_of ''string'' ''a'']" quiet]
  by (simp add: search_one_def leaf_of_def)

text \<open>
  C6. For a list statement whose key argument is the identifiers \<open>ids\<close> separated by single
  spaces, each naming a sibling leaf with a type, \<^verbatim>\<open>extract_keys\<close> returns, and both
  key lists it returns name exactly \<open>ids\<close>, in that order, duplicates included.
\<close>

theorem extract_keys_order:
  assumes "search_one s ''key'' = Some key"
    and "arg key = join '' '' ids" and "ids \<noteq> []" and "\<forall>i\<in>set ids. CHR '' '' \<notin> set i"
    and "\<forall>i\<in>set ids. \<exists>leaf. search_one_arg s ''leaf'' i = Some leaf \<and> search_one leaf ''type'' \<noteq> None"
  shows "\<exists>evs only_strings confm_keys primitive_keys.
           extract_keys c s = (evs, Inr (key, only_strings, confm_keys, primitive_keys)) \<and>
           map snd confm_keys = ids \<and> map snd primitive_keys = ids"
proof -
  have sp: "split_chr CHR '' '' (arg key) = ids"
    using split_chr_join[OF assms(3,4)] assms(2) by simp
  from extract_keys_loop_total[OF assms(5), of c "(1, [], [])"] obtain evs r where
    r: "extract_keys_loop c s ids (1, [], []) = (evs, Inr r)" by blast
  obtain os ck pk where t: "r = (os, ck, pk)" by (rule prod_cases3)
  from extract_keys_loop_names[OF r[unfolded t]] have "map snd ck = ids" "map snd pk = ids"
    by simp_all
  moreover have "extract_keys c s = (evs, Inr (key, os, ck, pk))"
    using assms(1) r t sp by (simp add: extract_keys_def bind_def ret_def)
  ultimately show ?thesis by blast
qed

theorem extract_keys_order_witness:
  "\<exists>evs only_strings confm_keys primitive_keys.
     extract_keys quiet (Statement ''list'' ''l''
        [Statement ''key'' ''b a b'' [], leaf_of ''string'' ''a'', leaf_of ''uint32'' ''b'']) =
       (evs, Inr (Statement ''key'' ''b a b'' [], only_strings, confm_keys, primitive_keys)) \<and>
     map snd confm_keys = [''b'', ''a'', ''b''] \<and> map snd primitive_keys = [''b'', ''a'', ''b'']"
  using extract_keys_order[of "Statement ''list'' ''l''
        [Statement ''key'' ''b a b'' [], leaf_of ''string'' ''a'', leaf_of ''uint32'' ''b'']"
        "Statement ''key'' ''b a b'' []" "[''b'', ''a'', ''b'']" quiet]
  by (simp add: search_one_def search_one_arg_def leaf_of_def)

text \<open>
  C1, as the code has it. \<^verbatim>\<open>schema_node\<close> sets \<^verbatim>\<open>max_occurs\<close> to \<^verbatim>\<open>'1'\<close> for every
  statement whose parent is a container or a list, whether the statement is itself a list
  or not; so a leaf with \<^verbatim>\<open>mandatory true\<close> that is a direct child of a list gets
  \<^verbatim>\<open>min_occurs\<close> 1 and \<^verbatim>\<open>max_occurs\<close> 1, not the unbounded \<^verbatim>\<open>'-1'\<close>. The counterexample
  is the mandatory leaf \<^verbatim>\<open>m\<close> of the list \<^verbatim>\<open>l\<close> with key \<^verbatim>\<open>k\<close>, and that list inside a
  container.
\<close>

theorem schema_node_child_bounds:
  assumes "keyword p = ''container'' \<or> keyword p = ''list''"
  shows "snd (schema_node c (Some p) s tagpath ns) ! 4 = ''<max_occurs>1</max_occurs>'' \<and>
         ((\<exists>m. search_one s ''mandatory'' = Some m \<and> arg m = ''true'') \<longrightarrow>
          snd (schema_node c (Some p) s tagpath ns) ! 3 = ''<min_occurs>1</min_occurs>'')"
  using assms by (auto simp: schema_node_def Let_def is_container_def split: option.splits)

theorem schema_node_child_bounds_witness:
  "snd (schema_node quiet (Some keyed_list) mandatory_leaf ''/l/m/'' ''urn:x'') ! 4 =
     ''<max_occurs>1</max_occurs>'' \<and>
   snd (schema_node quiet (Some keyed_list) mandatory_leaf ''/l/m/'' ''urn:x'') ! 3 =
     ''<min_occurs>1</min_occurs>''"
  using schema_node_child_bounds[of keyed_list quiet mandatory_leaf "''/l/m/''" "''urn:x''"]
  by (simp add: keyed_list_def mandatory_leaf_def search_one_def)

theorem schema_node_mandatory_leaf_counterexample:
  "snd (schema_node quiet (Some keyed_list) mandatory_leaf ''/l/m/'' ''urn:x'') =
     [''<tagpath>/l/m/</tagpath>'', ''<namespace>urn:x</namespace>'',
      ''<primitive_type></primitive_type>'', ''<min_occurs>1</min_occurs>'',
      ''<max_occurs>1</max_occurs>'', ''<children>string true</children>'',
      ''<flags></flags>'', ''<desc></desc>''] \<and>
   snd (schema_node quiet (Some (Statement ''container'' ''c'' [keyed_list])) keyed_list
          ''/c/l/'' ''urn:x'') ! 4 = ''<max_occurs>1</max_occurs>''"
  by (simp add: schema_node_def Let_def keyed_list_def mandatory_leaf_def leaf_of_def
      search_one_def is_container_def is_module_def quiet_def but_last_def)

text \<open>
  C10. In \<^verbatim>\<open>gen_package\<close> the expression \<^verbatim>\<open>ctx.revs[module_arg][-1:][:0]\<close> is empty
  whenever it has a value, so the revision is always replaced by \<^verbatim>\<open>'unknown'\<close>: either
  \<^verbatim>\<open>ctx.revs\<close> lacks a module name and \<^verbatim>\<open>gen_package\<close> ends with a \<^verbatim>\<open>KeyError\<close> before
  it writes anything, or it writes \<^verbatim>\<open>package-info.java\<close>, and the text written reports every
  module with the revision \<^verbatim>\<open>unknown\<close>: when no file name among the top-level entries holds
  a line break, the text begins with the comment opening, the line
  \<^verbatim>\<open>This class hierarchy was generated from the Yang module\<close> (\<^verbatim>\<open>modules\<close> for more than
  one) and the line that lists \<^verbatim>\<open>module "name" (rev "unknown")\<close> for every top-level entry,
  in order, separated by commas.
\<close>

theorem gen_package_revision_unknown:
  \<open>package_rev c m =
     (case revs c m of None \<Rightarrow> raise (KeyError m) | Some entries \<Rightarrow> ret ''unknown'') \<and>
   ((\<exists>evs k. gen_package h package c = (evs, Inl (KeyError k))) \<or>
    (\<exists>evs text. gen_package h package c =
         (evs @ [FileWrite ''package-info.java'' text], Inr ()) \<and>
       text = package_info h package (unknown_src (top_level_entries h)) \<and>
       ((\<forall>entry\<in>set (top_level_entries h). LF \<notin> set entry \<and> CR \<notin> set entry) \<longrightarrow>
          (\<exists>rest. text =
             (''/** * \<newline>'' @
              '' * This class hierarchy was generated from the Yang module'') @
             (if 1 < length (top_level_entries h) then ''s'' else '''') @ (''\<newline>'' @
              '' * '') @
             join '', '' (map (\<lambda>entry. ''module "'' @ decapitalize (but_last 5 entry) @
                                   ''" (rev "unknown")'') (top_level_entries h)) @
             '' by the <a target="_top" href="https://github.com/Emil-Tail-f/JPyang">JPyang</a> plugin of <a target="_top" href="http://code.google.com/p/pyang/">pyang</a>.\<newline>'' @
             rest))))\<close>
proof -
  have t: \<open>(\<forall>entry\<in>set (top_level_entries h). LF \<notin> set entry \<and> CR \<notin> set entry) \<longrightarrow>
      (\<exists>rest. package_info h package (unknown_src (top_level_entries h)) =
             (''/** * \<newline>'' @
              '' * This class hierarchy was generated from the Yang module'') @
             (if 1 < length (top_level_entries h) then ''s'' else '''') @ (''\<newline>'' @
              '' * '') @
             join '', '' (map (\<lambda>entry. ''module "'' @ decapitalize (but_last 5 entry) @
                                   ''" (rev "unknown")'') (top_level_entries h)) @
             '' by the <a target="_top" href="https://github.com/Emil-Tail-f/JPyang">JPyang</a> plugin of <a target="_top" href="http://code.google.com/p/pyang/">pyang</a>.\<newline>'' @
             rest)\<close>
  proof
    assume a: \<open>\<forall>entry\<in>set (top_level_entries h). LF \<notin> set entry \<and> CR \<notin> set entry\<close>
    from unknown_src_one_line[OF a]
    have \<open>LF \<notin> set (but_last 2 (unknown_src (top_level_entries h)))\<close>
      \<open>CR \<notin> set (but_last 2 (unknown_src (top_level_entries h)))\<close> by simp_all
    from package_info_text[OF this, of h package]
    show \<open>\<exists>rest. package_info h package (unknown_src (top_level_entries h)) =
             (''/** * \<newline>'' @
              '' * This class hierarchy was generated from the Yang module'') @
             (if 1 < length (top_level_entries h) then ''s'' else '''') @ (''\<newline>'' @
              '' * '') @
             join '', '' (map (\<lambda>entry. ''module "'' @ decapitalize (but_last 5 entry) @
                                   ''" (rev "unknown")'') (top_level_entries h)) @
             '' by the <a target="_top" href="https://github.com/Emil-Tail-f/JPyang">JPyang</a> plugin of <a target="_top" href="http://code.google.com/p/pyang/">pyang</a>.\<newline>'' @
             rest\<close>
      unfolding unknown_src_join .
  qed
  from package_src_cases[of c \<open>top_level_entries h\<close> \<open>[]\<close>]
  have \<open>(\<exists>evs k. gen_package h package c = (evs, Inl (KeyError k))) \<or>
    (\<exists>evs. gen_package h package c =
       (evs @ [FileWrite ''package-info.java''
                 (package_info h package (unknown_src (top_level_entries h)))], Inr ()))\<close>
    by (auto simp: gen_package_def bind_def out_def)
  with t show ?thesis by (simp add: package_rev_cases)
qed

theorem gen_package_revision_unknown_witness:
  \<open>package_rev with_revs ''acme'' = ret ''unknown'' \<and>
   (\<exists>evs rest. gen_package [File ''Acme.java''] ''gen'' with_revs =
       (evs @ [FileWrite ''package-info.java''
                 ((''/** * \<newline>'' @
                   '' * This class hierarchy was generated from the Yang module\<newline>'' @
                   '' * module "acme" (rev "unknown") by the <a target="_top" href="https://github.com/Emil-Tail-f/JPyang">JPyang</a> plugin of <a target="_top" href="http://code.google.com/p/pyang/">pyang</a>.\<newline>'') @
                  rest)], Inr ()))\<close>
proof -
  have r: \<open>revs with_revs ''acme'' \<noteq> None\<close>
    by (simp add: with_revs_def)
  have ok: \<open>snd (gen_package [File ''Acme.java''] ''gen'' with_revs) = Inr ()\<close>
    by code_simp
  have one: \<open>\<forall>entry\<in>set (top_level_entries [File ''Acme.java'']). LF \<notin> set entry \<and> CR \<notin> set entry\<close>
    by (simp add: LF_def CR_def)
  have j: \<open>join '', '' (map (\<lambda>entry. ''module "'' @ decapitalize (but_last 5 entry) @
                                   ''" (rev "unknown")'') (top_level_entries [File ''Acme.java''])) =
      ''module "acme" (rev "unknown")''\<close>
    by code_simp
  from gen_package_revision_unknown[of with_revs \<open>''acme''\<close> \<open>[File ''Acme.java'']\<close> \<open>''gen''\<close>]
    r ok one
  have \<open>package_rev with_revs ''acme'' = ret ''unknown''\<close>
    and \<open>\<exists>evs rest. gen_package [File ''Acme.java''] ''gen'' with_revs =
       (evs @ [FileWrite ''package-info.java''
                 ((''/** * \<newline>'' @
              '' * This class hierarchy was generated from the Yang module'') @
             (if 1 < length (top_level_entries [File ''Acme.java'']) then ''s'' else '''') @ (''\<newline>'' @
              '' * '') @
             join '', '' (map (\<lambda>entry. ''module "'' @ decapitalize (but_last 5 entry) @
                                   ''" (rev "unknown")'') (top_level_entries [File ''Acme.java''])) @
             '' by the <a target="_top" href="https://github.com/Emil-Tail-f/JPyang">JPyang</a> plugin of <a target="_top" href="http://code.google.com/p/pyang/">pyang</a>.\<newline>'' @
             rest)], Inr ())\<close>
    by auto
  then show ?thesis unfolding j by simp
qed












text \<open>
  C2, as the code has it. A top-level submodule is not skipped. With schema generation
  switched off (\<^verbatim>\<open>--jpyang-no-schema\<close>), \<^verbatim>\<open>emit\<close> runs \<^verbatim>\<open>generate_classes\<close> on the
  submodule as on a module. If \<^verbatim>\<open>generate_classes\<close> ends with an exception, \<^verbatim>\<open>emit\<close> ends
  with that exception after the same output, and no warning is reported. If
  \<^verbatim>\<open>generate_classes\<close> returns, it has written a class file for every top-level container
  and list of the submodule and, last, the root class file named after the prefix of the
  \<^verbatim>\<open>belongs-to\<close> statement; only then \<^verbatim>\<open>emit\<close> reports the diagnostic
  \<^verbatim>\<open>Warning: no support for submodule\<close> and goes on. The counterexample is a submodule with
  one container: two class files are written, with the warning after them; with schema
  generation on, the same submodule ends the pass with an \<^verbatim>\<open>AttributeError\<close>, since a
  submodule has no \<^verbatim>\<open>namespace\<close> statement. Its last part is the case of the exception: with
  both flags off, a submodule whose container has a \<^verbatim>\<open>boolean\<close> leaf ends with an
  \<^verbatim>\<open>UnboundLocalError\<close>; nothing is written and no warning is reported.
\<close>

theorem emit_submodule:
  assumes "keyword m = ''submodule''" and "no_schema c"
  shows "emit_module c e m =
           (case generate_classes c (today e) m (cwd e) (directory c) (emit_src e m) of
              (evs, Inl err) \<Rightarrow> (evs, Inl err)
            | (evs, Inr u) \<Rightarrow>
                (evs @ Stderr ''Warning: no support for submodule'' #
                   (if debug c \<or> verbose c then [Stdout ''Java classes generation COMPLETE.'']
                    else []),
                 Inr ())) \<and>
         (\<forall>evs. generate_classes c (today e) m (cwd e) (directory c) (emit_src e m) = (evs, Inr ()) \<longrightarrow>
            (\<exists>b p. search_one m ''belongs-to'' = Some b \<and> search_one b ''prefix'' = Some p \<and>
               written_paths evs \<noteq> [] \<and>
               last (written_paths evs) = cwd e @ ''/'' @ capitalize (arg p) @ ''.java'' \<and>
               (\<forall>cls\<in>set (substmts m). keyword cls = ''container'' \<or> keyword cls = ''list'' \<longrightarrow>
                  cwd e @ ''/'' @ capitalize (arg cls) @ ''.java'' \<in> set (written_paths evs))))"
proof (intro conjI allI impI)
  show "emit_module c e m =
           (case generate_classes c (today e) m (cwd e) (directory c) (emit_src e m) of
              (evs, Inl err) \<Rightarrow> (evs, Inl err)
            | (evs, Inr u) \<Rightarrow>
                (evs @ Stderr ''Warning: no support for submodule'' #
                   (if debug c \<or> verbose c then [Stdout ''Java classes generation COMPLETE.'']
                    else []),
                 Inr ()))"
    using assms
    by (simp add: emit_module_def emit_src_def bind_def out_def ret_def Let_def
        split: prod.splits sum.splits)
next
  fix evs
  assume "generate_classes c (today e) m (cwd e) (directory c) (emit_src e m) = (evs, Inr ())"
  from generate_classes_submodule[OF assms(1) this]
  show "\<exists>b p. search_one m ''belongs-to'' = Some b \<and> search_one b ''prefix'' = Some p \<and>
               written_paths evs \<noteq> [] \<and>
               last (written_paths evs) = cwd e @ ''/'' @ capitalize (arg p) @ ''.java'' \<and>
               (\<forall>cls\<in>set (substmts m). keyword cls = ''container'' \<or> keyword cls = ''list'' \<longrightarrow>
                  cwd e @ ''/'' @ capitalize (arg cls) @ ''.java'' \<in> set (written_paths evs))" .
qed

theorem emit_submodule_counterexample:
  "written_paths (fst (emit_module without_schema env0 submodule_example)) =
     [''/out/Top.java'', ''/out/Acme.java''] \<and>
   diagnostics (fst (emit_module without_schema env0 submodule_example)) =
     [Stderr ''Warning: no support for submodule''] \<and>
   snd (emit_module without_schema env0 submodule_example) = Inr () \<and>
   emit_module quiet env0 submodule_example = ([], Inl (AttributeError ''arg'')) \<and>
   emit_module without_schema env0 boolean_submodule =
     ([], Inl (UnboundLocalError ''type_str''))"
  by code_simp

theorem emit_submodule_witness:
  "\<exists>evs. emit_module without_schema env0 submodule_example =
           (evs @ [Stderr ''Warning: no support for submodule''], Inr ()) \<and>
         last (written_paths evs) = ''/out/Acme.java'' \<and>
         ''/out/Top.java'' \<in> set (written_paths evs)"
proof -
  have k: "keyword submodule_example = ''submodule''"
    by (simp add: submodule_example_def)
  have n: "no_schema without_schema"
    by (simp add: without_schema_def)
  note t = emit_submodule[OF k n, of env0]
  have g: "snd (generate_classes without_schema (today env0) submodule_example (cwd env0)
      (directory without_schema) (emit_src env0 submodule_example)) = Inr ()"
    by code_simp
  then obtain evs where e: "generate_classes without_schema (today env0) submodule_example
      (cwd env0) (directory without_schema) (emit_src env0 submodule_example) = (evs, Inr ())"
    by (metis prod.collapse)
  from t e have 1: "emit_module without_schema env0 submodule_example =
      (evs @ [Stderr ''Warning: no support for submodule''], Inr ())"
    by (simp add: without_schema_def quiet_def)
  from t e obtain b p where
    b: "search_one submodule_example ''belongs-to'' = Some b" "search_one b ''prefix'' = Some p"
    and l: "last (written_paths evs) = cwd env0 @ ''/'' @ capitalize (arg p) @ ''.java''"
    and a: "\<forall>cls\<in>set (substmts submodule_example).
        keyword cls = ''container'' \<or> keyword cls = ''list'' \<longrightarrow>
        cwd env0 @ ''/'' @ capitalize (arg cls) @ ''.java'' \<in> set (written_paths evs)"
    by blast
  from b have p: "arg p = ''acme''"
    by (auto simp: submodule_example_def search_one_def)
  have c: "capitalize ''acme'' = ''Acme''" "capitalize ''top'' = ''Top''"
    by code_simp+
  from l p c have 2: "last (written_paths evs) = ''/out/Acme.java''"
    by (simp add: env0_def)
  from a c have 3: "''/out/Top.java'' \<in> set (written_paths evs)"
    by (simp add: submodule_example_def env0_def)
  from 1 2 3 show ?thesis by blast
qed

end
